theory Spec2Isabelle
  imports Main
begin

section \<open>JavaScript values, thrown values and the monitor\<close>

text \<open>
  Values whose static type the sources leave open (event metadata, capability inputs,
  responses and configurations, the elements of a processing chain) are JavaScript
  values. Numbers are integers here: the only numbers the modelled code computes with are
  \<^verbatim>\<open>Date.now()\<close> and the history limit. An object is the list of its own properties in
  the order in which JavaScript enumerates them.
\<close>

datatype jsval =
    JUndefined
  | JNull
  | JBool bool
  | JNum int
  | JStr string
  | JArr "jsval list"
  | JObj "(string \<times> jsval) list"

text \<open>\<^verbatim>\<open>Array.prototype.join\<close> on an array of strings.\<close>

fun join :: "string \<Rightarrow> string list \<Rightarrow> string" where
  "join sep [] = []"
| "join sep [x] = x"
| "join sep (x # y # ys) = x @ sep @ join sep (y # ys)"

definition digit_char :: "nat \<Rightarrow> char" where
  "digit_char d = ''0123456789abcdef'' ! d"

fun string_of_nat :: "nat \<Rightarrow> string" where
  "string_of_nat n =
     (if n < 10 then [digit_char n]
      else string_of_nat (n div 10) @ [digit_char (n mod 10)])"

declare string_of_nat.simps [simp del]

text \<open>
  The string a template literal \<^verbatim>\<open>${n}\<close> produces for an integral number \<open>n\<close> (decimal
  digits; JavaScript switches to exponent notation only from \<open>10^21\<close> on, far beyond any
  millisecond clock value).
\<close>

definition Number_toString :: "int \<Rightarrow> string" where
  "Number_toString n =
     (if n < 0 then CHR ''-'' # string_of_nat (nat (- n)) else string_of_nat (nat n))"

text \<open>\<^verbatim>\<open>String(v)\<close>.\<close>

fun js_String :: "jsval \<Rightarrow> string" where
  "js_String JUndefined = ''undefined''"
| "js_String JNull = ''null''"
| "js_String (JBool b) = (if b then ''true'' else ''false'')"
| "js_String (JNum n) = Number_toString n"
| "js_String (JStr s) = s"
| "js_String (JArr xs) =
     join '','' (map (\<lambda>x. if x = JUndefined \<or> x = JNull then [] else js_String x) xs)"
| "js_String (JObj kvs) = ''[object Object]''"

text \<open>
  A thrown value: an \<^verbatim>\<open>Error\<close> object with its message, or any other value. The sources
  raise only \<^verbatim>\<open>new Error(message)\<close>; collaborators may throw anything.
\<close>

datatype exn = Error string | Thrown jsval

text \<open>\<^verbatim>\<open>error instanceof Error ? error.message : String(error)\<close>\<close>

fun error_text :: "exn \<Rightarrow> string" where
  "error_text (Error m) = m"
| "error_text (Thrown v) = js_String v"

text \<open>
  An asynchronous operation over a world \<open>'w\<close>: it ends by returning (\<open>Inr\<close>) or by
  throwing (\<open>Inl\<close>), and leaves the world changed. Awaited steps run one after the other.
\<close>

type_synonym ('w, 'a) prog = "'w \<Rightarrow> (exn + 'a) \<times> 'w"

definition returnM :: "'a \<Rightarrow> ('w, 'a) prog" where
  "returnM x w = (Inr x, w)"

definition throwM :: "exn \<Rightarrow> ('w, 'a) prog" where
  "throwM e w = (Inl e, w)"

definition bindM :: "('w, 'a) prog \<Rightarrow> ('a \<Rightarrow> ('w, 'b) prog) \<Rightarrow> ('w, 'b) prog" where
  "bindM m f w = (case m w of (Inl e, w') \<Rightarrow> (Inl e, w') | (Inr x, w') \<Rightarrow> f x w')"

text \<open>\<^verbatim>\<open>try { m } catch (error) { h error }\<close>\<close>

definition catchM :: "('w, 'a) prog \<Rightarrow> (exn \<Rightarrow> ('w, 'a) prog) \<Rightarrow> ('w, 'a) prog" where
  "catchM m h w = (case m w of (Inl e, w') \<Rightarrow> h e w' | (Inr x, w') \<Rightarrow> (Inr x, w'))"

text \<open>
  The monitor is the process-wide event sink. \<^verbatim>\<open>MonitorService.publishEvent\<close> is fire and
  forget: it records the event and never throws.
\<close>

record event =
  ev_type :: string
  ev_message :: string
  ev_logLevel :: string
  ev_metadata :: jsval

record monitor =
  events :: "event list"

definition publishEvent :: "event \<Rightarrow> ('w monitor_scheme, unit) prog" where
  "publishEvent e w = (Inr (), w\<lparr>events := events w @ [e]\<rparr>)"


section \<open>Conversation memory: data model\<close>

text \<open>
  Modelled from the spec: the types \<^verbatim>\<open>Message\<close>, \<^verbatim>\<open>Context\<close>, \<^verbatim>\<open>Conversation\<close>,
  \<^verbatim>\<open>MemoryQueryOptions\<close> and \<^verbatim>\<open>MemoryProvider\<close> (declared in \<^verbatim>\<open>./types\<close>) are imported by
  the service but are not among the sources; their fields are those of the spec's data
  model and of the object literals the service builds. An optional field is an \<open>option\<close>.
  \<open>user_message_id\<close> holds the \<^verbatim>\<open>id\<close> read from a chain element as it was found there (a
  string in every well-typed call).
\<close>

record Message =
  msg_id :: string
  msg_role :: string
  msg_content :: string
  msg_timestamp :: int
  msg_contextId :: "string option"
  msg_user_message_id :: "jsval option"

record Context =
  ctx_id :: string
  ctx_type :: string
  ctx_content :: string
  ctx_timestamp :: int

record Conversation =
  conv_id :: string
  conv_messages :: "Message list"
  conv_contexts :: "Context list"
  conv_metadata :: "jsval option"

record MemoryQueryOptions =
  q_conversationId :: string
  q_limit :: "int option"

text \<open>The \<^verbatim>\<open>options\<close> argument of \<^verbatim>\<open>createConversation\<close>.\<close>

record ConversationOptions =
  opt_id :: "string option"
  opt_metadata :: "jsval option"

text \<open>
  One step of a processing chain (\<^verbatim>\<open>BaseContextItem\<close>, declared in \<^verbatim>\<open>../types/agent\<close>,
  which is not among the sources) is a JavaScript value: an object, with its properties
  in their own order, in every well-typed call. The service reads its \<^verbatim>\<open>id\<close> and nothing
  else. \<open>item_id\<close> is that property where the element has it; only an object can.
\<close>

definition item_id :: "jsval \<Rightarrow> jsval option" where
  "item_id item = (case item of JObj props \<Rightarrow> map_of props ''id'' | _ \<Rightarrow> None)"

definition js_of_option :: "('a \<Rightarrow> jsval) \<Rightarrow> 'a option \<Rightarrow> jsval" where
  "js_of_option f x = (case x of None \<Rightarrow> JUndefined | Some v \<Rightarrow> f v)"

definition optional_prop :: "string \<Rightarrow> ('a \<Rightarrow> jsval) \<Rightarrow> 'a option \<Rightarrow> (string \<times> jsval) list" where
  "optional_prop k f x = (case x of None \<Rightarrow> [] | Some v \<Rightarrow> [(k, f v)])"

definition js_of_Message :: "Message \<Rightarrow> jsval" where
  "js_of_Message m =
     JObj ([(''id'', JStr (msg_id m)), (''role'', JStr (msg_role m)),
            (''content'', JStr (msg_content m)), (''timestamp'', JNum (msg_timestamp m))]
           @ optional_prop ''contextId'' JStr (msg_contextId m)
           @ optional_prop ''user_message_id'' (\<lambda>v. v) (msg_user_message_id m))"

definition js_of_Context :: "Context \<Rightarrow> jsval" where
  "js_of_Context c =
     JObj [(''id'', JStr (ctx_id c)), (''type'', JStr (ctx_type c)),
           (''content'', JStr (ctx_content c)), (''timestamp'', JNum (ctx_timestamp c))]"


definition js_of_ConversationOptions :: "ConversationOptions \<Rightarrow> jsval" where
  "js_of_ConversationOptions opts =
     JObj (optional_prop ''id'' JStr (opt_id opts) @ optional_prop ''metadata'' (\<lambda>v. v) (opt_metadata opts))"

subsection \<open>The persistence collaborator\<close>

text \<open>
  The provider is pluggable. Each of its operations acts on the provider's own state \<open>'s\<close>
  and either returns or throws; nothing else is known about it.
\<close>

record 's MemoryProvider =
  mp_id :: string
  mp_storeMessage :: "Message \<Rightarrow> string \<Rightarrow> 's \<Rightarrow> (exn + unit) \<times> 's"
  mp_storeContext :: "Context \<Rightarrow> string \<Rightarrow> 's \<Rightarrow> (exn + unit) \<times> 's"
  mp_getMessages :: "MemoryQueryOptions \<Rightarrow> 's \<Rightarrow> (exn + Message list) \<times> 's"
  mp_getContexts :: "string \<Rightarrow> 's \<Rightarrow> (exn + Context list) \<times> 's"
  mp_getConversation :: "string \<Rightarrow> 's \<Rightarrow> (exn + Conversation) \<times> 's"
  mp_createConversation :: "ConversationOptions option \<Rightarrow> 's \<Rightarrow> (exn + string) \<times> 's"
  mp_deleteConversation :: "string \<Rightarrow> 's \<Rightarrow> (exn + unit) \<times> 's"

text \<open>The requests that reach the provider, in the order they are made.\<close>

datatype provider_call =
    StoreMessage Message string
  | StoreContext Context string
  | GetMessages MemoryQueryOptions
  | GetContexts string
  | GetConversation string
  | CreateConversation "ConversationOptions option"
  | DeleteConversation string

text \<open>
  The world of the memory service: the monitor's events, the log of provider requests,
  the clock reading \<^verbatim>\<open>Date.now()\<close> returns, and the provider's state.
\<close>

record 's memory_world = monitor +
  calls :: "provider_call list"
  now :: int
  pstate :: 's

definition invoke :: "provider_call \<Rightarrow> ('s \<Rightarrow> (exn + 'a) \<times> 's) \<Rightarrow> ('s memory_world, 'a) prog" where
  "invoke c f w =
     (case f (pstate w) of (r, s') \<Rightarrow> (r, w\<lparr>calls := calls w @ [c], pstate := s'\<rparr>))"

definition Date_now :: "('s memory_world, int) prog" where
  "Date_now w = (Inr (now w), w)"

section \<open>Conversation memory: the service\<close>

definition generateConversationId :: "string \<Rightarrow> string \<Rightarrow> string" where
  "generateConversationId user platform = platform @ ''-'' @ user"

definition storeMessage :: "'s MemoryProvider \<Rightarrow> Message \<Rightarrow> string \<Rightarrow> ('s memory_world, unit) prog" where
  "storeMessage P message conversationId =
     bindM (publishEvent \<lparr>ev_type = ''memory.service.store_message.called'',
                          ev_message = ''MemoryService.storeMessage called'',
                          ev_logLevel = ''info'',
                          ev_metadata = JObj [(''conversationId'', JStr conversationId),
                                              (''message'', js_of_Message message)]\<rparr>) (\<lambda>_.
     invoke (StoreMessage message conversationId) (mp_storeMessage P message conversationId))"

definition storeContext :: "'s MemoryProvider \<Rightarrow> Context \<Rightarrow> string \<Rightarrow> ('s memory_world, unit) prog" where
  "storeContext P context conversationId =
     bindM (publishEvent \<lparr>ev_type = ''memory.service.store_context.called'',
                          ev_message = ''MemoryService.storeContext called'',
                          ev_logLevel = ''info'',
                          ev_metadata = JObj [(''conversationId'', JStr conversationId),
                                              (''context'', js_of_Context context)]\<rparr>) (\<lambda>_.
     invoke (StoreContext context conversationId) (mp_storeContext P context conversationId))"


definition getContexts :: "'s MemoryProvider \<Rightarrow> string \<Rightarrow> ('s memory_world, Context list) prog" where
  "getContexts P conversationId =
     bindM (publishEvent \<lparr>ev_type = ''memory.service.get_contexts.called'',
                          ev_message = ''MemoryService.getContexts called'',
                          ev_logLevel = ''info'',
                          ev_metadata = JObj [(''conversationId'', JStr conversationId)]\<rparr>) (\<lambda>_.
     invoke (GetContexts conversationId) (mp_getContexts P conversationId))"

definition getConversation :: "'s MemoryProvider \<Rightarrow> string \<Rightarrow> ('s memory_world, Conversation) prog" where
  "getConversation P conversationId =
     bindM (publishEvent \<lparr>ev_type = ''memory.service.get_conversation.called'',
                          ev_message = ''MemoryService.getConversation called'',
                          ev_logLevel = ''info'',
                          ev_metadata = JObj [(''conversationId'', JStr conversationId)]\<rparr>) (\<lambda>_.
     invoke (GetConversation conversationId) (mp_getConversation P conversationId))"

definition createConversation :: "'s MemoryProvider \<Rightarrow> ConversationOptions option \<Rightarrow> ('s memory_world, string) prog" where
  "createConversation P options =
     bindM (publishEvent \<lparr>ev_type = ''memory.service.create_conversation.called'',
                          ev_message = ''MemoryService.createConversation called'',
                          ev_logLevel = ''info'',
                          ev_metadata = JObj [(''options'', js_of_option js_of_ConversationOptions options)]\<rparr>) (\<lambda>_.
     invoke (CreateConversation options) (mp_createConversation P options))"

definition deleteConversation :: "'s MemoryProvider \<Rightarrow> string \<Rightarrow> ('s memory_world, unit) prog" where
  "deleteConversation P conversationId =
     invoke (DeleteConversation conversationId) (mp_deleteConversation P conversationId)"

text \<open>
  Get or create a conversation for a user on a platform. The \<^verbatim>\<open>catch\<close> has no binding:
  every failure of the fetch is taken to mean that the conversation does not exist.
\<close>

definition getOrCreateConversation :: "'s MemoryProvider \<Rightarrow> string \<Rightarrow> string \<Rightarrow> ('s memory_world, string) prog" where
  "getOrCreateConversation P user platform =
     (let conversationId = generateConversationId user platform in
      catchM
        (bindM (getConversation P conversationId) (\<lambda>_.
         returnM conversationId))
        (\<lambda>_.
         bindM (createConversation P (Some \<lparr>opt_id = Some conversationId, opt_metadata = None\<rparr>)) (\<lambda>_.
         returnM conversationId)))"

text \<open>\<^verbatim>\<open>contextChain[0]\<close>: an empty array gives \<^verbatim>\<open>undefined\<close>.\<close>

definition first_item :: "jsval list \<Rightarrow> jsval" where
  "first_item contextChain = (case contextChain of [] \<Rightarrow> JUndefined | x # _ \<Rightarrow> x)"

text \<open>
  \<^verbatim>\<open>userMessage?.id\<close>: \<^verbatim>\<open>undefined\<close> for \<^verbatim>\<open>undefined\<close> and \<^verbatim>\<open>null\<close>, and for every value
  without the property.
\<close>

definition optional_id :: "jsval \<Rightarrow> jsval" where
  "optional_id userMessage = (case item_id userMessage of None \<Rightarrow> JUndefined | Some v \<Rightarrow> v)"

text \<open>
  \<^verbatim>\<open>!v\<close>: the falsy values are \<^verbatim>\<open>undefined\<close>, \<^verbatim>\<open>null\<close>, \<^verbatim>\<open>false\<close>, zero and the empty
  string.
\<close>

definition falsy :: "jsval \<Rightarrow> bool" where
  "falsy v = (v = JUndefined \<or> v = JNull \<or> v = JBool False \<or> v = JNum 0 \<or> v = JStr [])"

text \<open>
  Store an assistant interaction and its context. \<^verbatim>\<open>JSON.stringify\<close> belongs to the
  platform, not to the service: it is the argument \<open>JSON_stringify\<close>, and the service
  applies it to the whole chain, an array, for which it returns a string.
\<close>

definition storeAssistantInteraction ::
  "(jsval \<Rightarrow> string) \<Rightarrow> 's MemoryProvider \<Rightarrow> string \<Rightarrow> string \<Rightarrow> string \<Rightarrow> jsval list \<Rightarrow>
   ('s memory_world, unit) prog" where
  "storeAssistantInteraction JSON_stringify P user platform response contextChain =
     catchM
       (bindM (publishEvent \<lparr>ev_type = ''memory.assistant.interaction.storing'',
                             ev_message = ''Storing assistant interaction'',
                             ev_logLevel = ''info'',
                             ev_metadata = JObj [(''user'', JStr user), (''platform'', JStr platform),
                                                 (''response'', JStr response)]\<rparr>) (\<lambda>_.
        bindM (getOrCreateConversation P user platform) (\<lambda>conversationId.
        bindM (publishEvent \<lparr>ev_type = ''memory.conversation.retrieved'',
                             ev_message = ''Got conversation ID'',
                             ev_logLevel = ''info'',
                             ev_metadata = JObj [(''conversationId'', JStr conversationId),
                                                 (''user'', JStr user), (''platform'', JStr platform)]\<rparr>) (\<lambda>_.
        bindM Date_now (\<lambda>timestamp.
        let contextId = conversationId @ ''-context-'' @ Number_toString timestamp;
            messageId = conversationId @ ''-assistant-'' @ Number_toString timestamp;
            userMessage = first_item contextChain
        in
        bindM (publishEvent \<lparr>ev_type = ''memory.context.chain.processing'',
                             ev_message = ''Context chain user message'',
                             ev_logLevel = ''info'',
                             ev_metadata = JObj [(''userMessage'', userMessage),
                                                 (''contextChain'', JStr (JSON_stringify (JArr contextChain)))]\<rparr>) (\<lambda>_.
        if falsy (optional_id userMessage)
        then throwM (Error ''No user message ID found in context chain'')
        else
        let userMessageId = optional_id userMessage in
        bindM (publishEvent \<lparr>ev_type = ''memory.message.id.extracted'',
                             ev_message = ''Using user message ID from context chain'',
                             ev_logLevel = ''info'',
                             ev_metadata = JObj [(''userMessageId'', userMessageId)]\<rparr>) (\<lambda>_.
        bindM (storeContext P
                 \<lparr>ctx_id = contextId, ctx_type = ''context_chain'',
                  ctx_content = JSON_stringify (JArr contextChain), ctx_timestamp = timestamp\<rparr>
                 conversationId) (\<lambda>_.
        bindM (publishEvent \<lparr>ev_type = ''memory.context.stored'',
                             ev_message = ''Stored context'',
                             ev_logLevel = ''info'',
                             ev_metadata = JObj [(''contextId'', JStr contextId),
                                                 (''conversationId'', JStr conversationId)]\<rparr>) (\<lambda>_.
        bindM (storeMessage P
                 \<lparr>msg_id = messageId, msg_role = ''assistant'', msg_content = response,
                  msg_timestamp = timestamp, msg_contextId = Some contextId,
                  msg_user_message_id = Some userMessageId\<rparr>
                 conversationId) (\<lambda>_.
        publishEvent \<lparr>ev_type = ''memory.assistant.interaction.completed'',
                      ev_message = ''Successfully stored assistant interaction and context'',
                      ev_logLevel = ''info'',
                      ev_metadata = JObj [(''messageId'', JStr messageId), (''contextId'', JStr contextId),
                                          (''conversationId'', JStr conversationId)]\<rparr>))))))))))
       (\<lambda>error.
        bindM (publishEvent \<lparr>ev_type = ''memory.assistant.interaction.failed'',
                             ev_message = ''Failed to store assistant interaction'',
                             ev_logLevel = ''error'',
                             ev_metadata = JObj [(''error'', JStr (error_text error)),
                                                 (''user'', JStr user), (''platform'', JStr platform)]\<rparr>) (\<lambda>_.
        throwM error))"




section \<open>JavaScript maps\<close>

text \<open>
  A \<^verbatim>\<open>Map\<close> with string keys: its entries in insertion order, no key twice. Setting a key
  that is present replaces the value in place; a new key goes to the end.
\<close>

type_synonym 'v js_map = "(string \<times> 'v) list"

definition Map_has :: "string \<Rightarrow> 'v js_map \<Rightarrow> bool" where
  "Map_has k m = (k \<in> set (map fst m))"

definition Map_get :: "string \<Rightarrow> 'v js_map \<Rightarrow> 'v option" where
  "Map_get k m = map_of m k"

definition Map_set :: "string \<Rightarrow> 'v \<Rightarrow> 'v js_map \<Rightarrow> 'v js_map" where
  "Map_set k v m =
     (if Map_has k m then map (\<lambda>kv. if fst kv = k then (k, v) else kv) m else m @ [(k, v)])"

definition Map_keys :: "'v js_map \<Rightarrow> string list" where
  "Map_keys m = map fst m"

definition Map_values :: "'v js_map \<Rightarrow> 'v list" where
  "Map_values m = map snd m"

section \<open>Model providers and the logging decorator\<close>

text \<open>
  The world of a capability: the monitor's events, the text \<^verbatim>\<open>new Date().toISOString()\<close>
  returns, and whatever else (\<open>'x\<close>) the capabilities of a model act on.
\<close>

record 'x capability_world = monitor +
  iso_now :: string
  ext :: 'x

definition Date_toISOString :: "('x capability_world, string) prog" where
  "Date_toISOString w = (Inr (iso_now w), w)"

text \<open>
  Modelled from the spec: \<^verbatim>\<open>ModelCapability\<close> is declared in \<^verbatim>\<open>./capabilities\<close>, which is
  not among the sources; its fields are those the decorator copies. Inputs, responses and
  configurations are untyped at run time (\<^verbatim>\<open>unknown\<close>); a call without \<^verbatim>\<open>config\<close> passes
  \<open>JUndefined\<close>.
\<close>

record 'x ModelCapability =
  cap_id :: string
  cap_name :: string
  cap_description :: string
  cap_input :: jsval
  cap_output :: jsval
  cap_execute :: "jsval \<Rightarrow> jsval \<Rightarrow> ('x capability_world, jsval) prog"

text \<open>
  A provider object. Its fields are read-only; \<open>capabilities\<close> is a reference to the
  provider's \<^verbatim>\<open>Map\<close>, a mutable object of its own on the heap. \<open>checkHealth\<close> and \<open>init\<close>
  are the methods a concrete provider class supplies (\<open>init\<close> is optional).
\<close>

record 'x ModelProvider =
  model_id :: string
  model_name :: string
  model_description :: string
  capabilities :: nat
  checkHealth :: "('x capability_world, unit) prog"
  init :: "('x capability_world, unit) prog option"

text \<open>The heap of capability maps: a reference is an index, \<^verbatim>\<open>new Map()\<close> takes the next one.\<close>

type_synonym 'x heap = "'x ModelCapability js_map list"

definition new_Map :: "'x heap \<Rightarrow> nat \<times> 'x heap" where
  "new_Map h = (length h, h @ [[]])"

text \<open>The constructor of \<^verbatim>\<open>ModelProviderBase\<close>, with the methods of the concrete class.\<close>

definition ModelProviderBase ::
  "string \<Rightarrow> string \<Rightarrow> string \<Rightarrow> ('x capability_world, unit) prog \<Rightarrow>
   ('x capability_world, unit) prog option \<Rightarrow> 'x heap \<Rightarrow> 'x ModelProvider \<times> 'x heap" where
  "ModelProviderBase id' name description health initialize h =
     (case new_Map h of (r, h') \<Rightarrow>
        (\<lparr>model_id = id', model_name = name, model_description = description,
          capabilities = r, checkHealth = health, init = initialize\<rparr>, h'))"

definition addCapability :: "'x ModelProvider \<Rightarrow> 'x ModelCapability \<Rightarrow> 'x heap \<Rightarrow> 'x heap" where
  "addCapability this capability h =
     h[capabilities this := Map_set (cap_id capability) capability (h ! capabilities this)]"

definition getCapability :: "'x ModelProvider \<Rightarrow> string \<Rightarrow> 'x heap \<Rightarrow> 'x ModelCapability option" where
  "getCapability this capabilityId h = Map_get capabilityId (h ! capabilities this)"

definition getCapabilities :: "'x ModelProvider \<Rightarrow> 'x heap \<Rightarrow> 'x ModelCapability list" where
  "getCapabilities this h = Map_values (h ! capabilities this)"

definition hasCapability :: "'x ModelProvider \<Rightarrow> string \<Rightarrow> 'x heap \<Rightarrow> bool" where
  "hasCapability this capabilityId h = Map_has capabilityId (h ! capabilities this)"

definition executeCapability ::
  "'x ModelProvider \<Rightarrow> string \<Rightarrow> jsval \<Rightarrow> jsval \<Rightarrow> 'x heap \<Rightarrow> ('x capability_world, jsval) prog" where
  "executeCapability this capabilityId input config h =
     (case Map_get capabilityId (h ! capabilities this) of
        None \<Rightarrow> throwM (Error (''Capability '' @ capabilityId @ '' not found on model '' @ model_id this))
      | Some capability \<Rightarrow> cap_execute capability input config)"

text \<open>
  The decorated version of one capability, as the decorator's constructor builds it;
  \<open>this_id\<close> is the decorator's own \<^verbatim>\<open>this.id\<close>.
\<close>

definition decorated :: "string \<Rightarrow> 'x ModelCapability \<Rightarrow> 'x ModelCapability" where
  "decorated this_id capability =
     \<lparr>cap_id = cap_id capability,
      cap_name = cap_name capability,
      cap_description = cap_description capability,
      cap_input = cap_input capability,
      cap_output = cap_output capability,
      cap_execute = (\<lambda>input config.
        catchM
          (bindM (publishEvent
                    \<lparr>ev_type = ''model.capability.prompt'',
                     ev_message = ''Model '' @ this_id @ '' sending prompt to capability '' @ cap_id capability,
                     ev_logLevel = ''debug'',
                     ev_metadata = JObj [(''model'', JStr this_id), (''capability'', JStr (cap_id capability)),
                                         (''input'', input), (''config'', config)]\<rparr>) (\<lambda>_.
           bindM (cap_execute capability input config) (\<lambda>response.
           bindM Date_toISOString (\<lambda>timestamp.
           bindM (publishEvent
                    \<lparr>ev_type = ''model.capability.response'',
                     ev_message = ''Model '' @ this_id @ '' received response from capability '' @ cap_id capability,
                     ev_logLevel = ''debug'',
                     ev_metadata = JObj [(''model'', JStr this_id), (''capability'', JStr (cap_id capability)),
                                         (''response'', response),
                                         (''execution_metadata'',
                                            JObj [(''timestamp'', JStr timestamp), (''config'', config)])]\<rparr>) (\<lambda>_.
           returnM response)))))
          (\<lambda>error.
           bindM (publishEvent
                    \<lparr>ev_type = ''model.capability.error'',
                     ev_message = ''Model '' @ this_id @ '' encountered error with capability '' @ cap_id capability,
                     ev_logLevel = ''error'',
                     ev_metadata = JObj [(''model'', JStr this_id), (''capability'', JStr (cap_id capability)),
                                         (''error'', JStr (error_text error)), (''status'', JStr ''failed''),
                                         (''input'', input)]\<rparr>) (\<lambda>_.
           throwM error)))\<rparr>"

text \<open>
  The constructor of \<^verbatim>\<open>LoggingModelDecorator\<close>: the base constructor makes a new map for
  the decorator; the loop runs over the array \<^verbatim>\<open>model.getCapabilities()\<close> returned when
  the loop began. \<open>checkHealth\<close> and \<open>init\<close> delegate to the decorated model.
\<close>

definition LoggingModelDecorator :: "'x ModelProvider \<Rightarrow> 'x heap \<Rightarrow> 'x ModelProvider \<times> 'x heap" where
  "LoggingModelDecorator model h =
     (case ModelProviderBase (model_id model) (model_name model) (model_description model)
             (checkHealth model)
             (Some (case init model of Some initialize \<Rightarrow> initialize | None \<Rightarrow> returnM ()))
             h of
        (this, h') \<Rightarrow>
          (this,
           fold (\<lambda>capability. addCapability this (decorated (model_id this) capability))
                (getCapabilities model h') h'))"

section \<open>The plugin registry\<close>

text \<open>
  Modelled from the spec: \<^verbatim>\<open>Plugin\<close> is declared in \<^verbatim>\<open>../plugin\<close>, which is not among the
  sources; the registry reads only its \<^verbatim>\<open>id\<close>. Executors and whatever else a plugin
  carries are the record's extension.
\<close>

record Plugin =
  plugin_id :: string
  plugin_name :: string
  plugin_description :: string

record 'p registry_world = monitor +
  plugins :: "'p Plugin_scheme js_map"

text \<open>\<^verbatim>\<open>s.startsWith(p)\<close>\<close>

definition startsWith :: "string \<Rightarrow> string \<Rightarrow> bool" where
  "startsWith s p = (take (length p) s = p)"

text \<open>
  Validate the format of a plugin id. The id is a string, so the branch for
  \<^verbatim>\<open>typeof id !== "string"\<close> is never taken and has no counterpart here.
\<close>

definition validatePluginId :: "string \<Rightarrow> ('w monitor_scheme, unit) prog" where
  "validatePluginId id' =
     (if id' = [] then
        bindM (publishEvent \<lparr>ev_type = ''registry.plugin.validation.failed'',
                             ev_message = ''Plugin ID validation failed'',
                             ev_logLevel = ''error'',
                             ev_metadata = JObj [(''error'', JStr ''ID cannot be empty'')]\<rparr>) (\<lambda>_.
        throwM (Error ''Plugin ID cannot be empty''))
      else if \<not> startsWith id' ''plugin-'' then
        bindM (publishEvent \<lparr>ev_type = ''registry.plugin.validation.failed'',
                             ev_message = ''Plugin ID validation failed'',
                             ev_logLevel = ''error'',
                             ev_metadata = JObj [(''error'', JStr (''ID must start with '' @ [CHR 0x22] @ ''plugin-'' @ [CHR 0x22])),
                                                 (''id'', JStr id')]\<rparr>) (\<lambda>_.
        throwM (Error (''Plugin ID must start with '' @ [CHR 0x22] @ ''plugin-'' @ [CHR 0x22])))
      else returnM ())"

text \<open>Register a new plugin; \<open>None\<close> is a \<^verbatim>\<open>null\<close> or \<^verbatim>\<open>undefined\<close> argument.\<close>

definition register :: "'p Plugin_scheme option \<Rightarrow> ('p registry_world, unit) prog" where
  "register plugin_arg =
     (case plugin_arg of
        None \<Rightarrow>
          bindM (publishEvent \<lparr>ev_type = ''registry.plugin.registration.failed'',
                               ev_message = ''Plugin registration failed'',
                               ev_logLevel = ''error'',
                               ev_metadata = JObj [(''error'', JStr ''Plugin is null or undefined'')]\<rparr>) (\<lambda>_.
          throwM (Error ''Cannot register null or undefined plugin''))
      | Some plugin \<Rightarrow>
          bindM (validatePluginId (plugin_id plugin)) (\<lambda>_ w.
          if Map_has (plugin_id plugin) (plugins w) then
            (let existing = Map_keys (plugins w) in
             bindM (publishEvent \<lparr>ev_type = ''registry.plugin.id.collision'',
                                  ev_message = ''Plugin ID collision'',
                                  ev_logLevel = ''error'',
                                  ev_metadata = JObj [(''id'', JStr (plugin_id plugin)),
                                                      (''existingPlugins'', JArr (map JStr existing))]\<rparr>) (\<lambda>_.
             throwM (Error (''Plugin ID collision: '' @ plugin_id plugin @ '' is already registered.''
                            @ [CHR 0x0A] @ ''Currently registered plugins: '' @ join '', '' existing)))) w
          else (Inr (), w\<lparr>plugins := Map_set (plugin_id plugin) plugin (plugins w)\<rparr>)))"

text \<open>Get a plugin by id; \<open>None\<close> is \<^verbatim>\<open>undefined\<close>.\<close>

definition getPlugin :: "string \<Rightarrow> ('p registry_world, 'p Plugin_scheme option) prog" where
  "getPlugin id' w =
     (case Map_get id' (plugins w) of
        None \<Rightarrow>
          bindM (publishEvent \<lparr>ev_type = ''registry.plugin.not_found'',
                               ev_message = ''Plugin not found'',
                               ev_logLevel = ''warn'',
                               ev_metadata = JObj [(''id'', JStr id'),
                                                   (''availablePlugins'', JArr (map JStr (Map_keys (plugins w))))]\<rparr>) (\<lambda>_.
          returnM None) w
      | Some plugin \<Rightarrow> (Inr (Some plugin), w))"

definition getAllPlugins :: "('p registry_world, 'p Plugin_scheme list) prog" where
  "getAllPlugins w = (Inr (Map_values (plugins w)), w)"


section \<open>Notions used in the statements\<close>

text \<open>The provider requests that persist a context record or a message.\<close>

definition is_write :: "provider_call \<Rightarrow> bool" where
  "is_write c = (case c of StoreMessage _ _ \<Rightarrow> True | StoreContext _ _ \<Rightarrow> True | _ \<Rightarrow> False)"

definition is_create :: "provider_call \<Rightarrow> bool" where
  "is_create c = (case c of CreateConversation _ \<Rightarrow> True | _ \<Rightarrow> False)"

text \<open>
  What the service relies on when it creates a conversation: once the provider has
  answered a create request for an id without error, a fetch of that id succeeds.
\<close>

definition fetch_finds_created :: "'s MemoryProvider \<Rightarrow> bool" where
  "fetch_finds_created P =
     (\<forall>cid s x s'.
        mp_createConversation P (Some \<lparr>opt_id = Some cid, opt_metadata = None\<rparr>) s = (Inr x, s')
        \<longrightarrow> (\<exists>c s''. mp_getConversation P cid s' = (Inr c, s'')))"

text \<open>
  The capability maps as \<open>addCapability\<close> builds them: every capability is stored under
  its own id.
\<close>

definition keyed_by_id :: "'x ModelCapability js_map \<Rightarrow> bool" where
  "keyed_by_id m = (distinct (map fst m) \<and> list_all (\<lambda>kv. fst kv = cap_id (snd kv)) m)"

section \<open>Example collaborators\<close>

text \<open>
  A serializer for the examples. It writes JSON text as \<^verbatim>\<open>JSON.stringify\<close> does for values
  made of ASCII strings, integers below \<open>2^53\<close> in magnitude, booleans, \<^verbatim>\<open>null\<close>, arrays and
  objects. \<open>None\<close> stands for the result \<^verbatim>\<open>undefined\<close>; inside an array it is written
  \<^verbatim>\<open>null\<close>, inside an object the property is left out.
\<close>

definition json_escape :: "char \<Rightarrow> string" where
  "json_escape c =
     (if c = CHR 0x22 then [CHR 0x5C, CHR 0x22]
      else if c = CHR 0x5C then [CHR 0x5C, CHR 0x5C]
      else if c = CHR 0x08 then [CHR 0x5C, CHR ''b'']
      else if c = CHR 0x0C then [CHR 0x5C, CHR ''f'']
      else if c = CHR 0x0A then [CHR 0x5C, CHR ''n'']
      else if c = CHR 0x0D then [CHR 0x5C, CHR ''r'']
      else if c = CHR 0x09 then [CHR 0x5C, CHR ''t'']
      else if (of_char c :: nat) < 32
        then [CHR 0x5C, CHR ''u'', CHR ''0'', CHR ''0'',
              digit_char (of_char c div 16), digit_char (of_char c mod 16)]
      else [c])"

definition json_quote :: "string \<Rightarrow> string" where
  "json_quote s = CHR 0x22 # concat (map json_escape s) @ [CHR 0x22]"

fun JSON_text :: "jsval \<Rightarrow> string option" where
  "JSON_text JUndefined = None"
| "JSON_text JNull = Some ''null''"
| "JSON_text (JBool b) = Some (if b then ''true'' else ''false'')"
| "JSON_text (JNum n) = Some (Number_toString n)"
| "JSON_text (JStr s) = Some (json_quote s)"
| "JSON_text (JArr xs) =
     Some (''['' @ join '','' (map (\<lambda>x. case JSON_text x of None \<Rightarrow> ''null'' | Some t \<Rightarrow> t) xs)
           @ '']'')"
| "JSON_text (JObj kvs) =
     Some (''{'' @ join '','' (concat (map (\<lambda>kv. case JSON_text (snd kv) of
                                                  None \<Rightarrow> []
                                                | Some t \<Rightarrow> [json_quote (fst kv) @ '':'' @ t]) kvs))
           @ ''}'')"

definition example_stringify :: "jsval \<Rightarrow> string" where
  "example_stringify v = (case JSON_text v of Some s \<Rightarrow> s | None \<Rightarrow> ''undefined'')"

text \<open>
  An in-memory provider: its state is the list of the conversations it holds. Fetching or
  writing to a conversation it does not hold fails.
\<close>

definition holds :: "string \<Rightarrow> Conversation list \<Rightarrow> bool" where
  "holds cid s = (cid \<in> set (map conv_id s))"

definition not_found :: exn where
  "not_found = Error ''Conversation not found''"

definition store_provider :: "Conversation list MemoryProvider" where
  "store_provider =
     \<lparr>mp_id = ''in-memory'',
      mp_storeMessage = (\<lambda>m cid s.
        if holds cid s
        then (Inr (), map (\<lambda>c. if conv_id c = cid then c\<lparr>conv_messages := conv_messages c @ [m]\<rparr> else c) s)
        else (Inl not_found, s)),
      mp_storeContext = (\<lambda>x cid s.
        if holds cid s
        then (Inr (), map (\<lambda>c. if conv_id c = cid then c\<lparr>conv_contexts := conv_contexts c @ [x]\<rparr> else c) s)
        else (Inl not_found, s)),
      mp_getMessages = (\<lambda>q s.
        case find (\<lambda>c. conv_id c = q_conversationId q) s of
          None \<Rightarrow> (Inl not_found, s)
        | Some c \<Rightarrow> (Inr (case q_limit q of None \<Rightarrow> conv_messages c
                                           | Some l \<Rightarrow> take (nat l) (conv_messages c)), s)),
      mp_getContexts = (\<lambda>cid s.
        case find (\<lambda>c. conv_id c = cid) s of
          None \<Rightarrow> (Inl not_found, s)
        | Some c \<Rightarrow> (Inr (conv_contexts c), s)),
      mp_getConversation = (\<lambda>cid s.
        case find (\<lambda>c. conv_id c = cid) s of
          None \<Rightarrow> (Inl not_found, s)
        | Some c \<Rightarrow> (Inr c, s)),
      mp_createConversation = (\<lambda>options s.
        case options of
          None \<Rightarrow> (Inl (Error ''An id is required''), s)
        | Some opts \<Rightarrow>
            (case opt_id opts of
               None \<Rightarrow> (Inl (Error ''An id is required''), s)
             | Some cid \<Rightarrow>
                 (Inr cid, s @ [\<lparr>conv_id = cid, conv_messages = [], conv_contexts = [],
                                 conv_metadata = opt_metadata opts\<rparr>]))),
      mp_deleteConversation = (\<lambda>cid s. (Inr (), filter (\<lambda>c. conv_id c \<noteq> cid) s))\<rparr>"

text \<open>A provider whose storage is down: every request fails.\<close>

definition unavailable :: exn where
  "unavailable = Error ''Storage unavailable''"

definition failing_provider :: "unit MemoryProvider" where
  "failing_provider =
     \<lparr>mp_id = ''down'',
      mp_storeMessage = (\<lambda>m cid s. (Inl unavailable, s)),
      mp_storeContext = (\<lambda>x cid s. (Inl unavailable, s)),
      mp_getMessages = (\<lambda>q s. (Inl unavailable, s)),
      mp_getContexts = (\<lambda>cid s. (Inl unavailable, s)),
      mp_getConversation = (\<lambda>cid s. (Inl unavailable, s)),
      mp_createConversation = (\<lambda>options s. (Inl unavailable, s)),
      mp_deleteConversation = (\<lambda>cid s. (Inl unavailable, s))\<rparr>"

text \<open>A quiet world at clock reading 2000, around a given provider state.\<close>

definition world_at_2000 :: "'s \<Rightarrow> 's memory_world" where
  "world_at_2000 s = \<lparr>events = [], calls = [], now = 2000, pstate = s\<rparr>"


text \<open>
  A model with two capabilities, built by the constructor and \<open>addCapability\<close> on an
  empty heap: one capability answers with its input, the other always fails.
\<close>

definition echo_capability :: "unit ModelCapability" where
  "echo_capability =
     \<lparr>cap_id = ''text-generation'', cap_name = ''Text generation'',
      cap_description = ''Answers with the prompt'', cap_input = JStr ''string'',
      cap_output = JStr ''string'', cap_execute = (\<lambda>input config. returnM input)\<rparr>"

definition failing_capability :: "unit ModelCapability" where
  "failing_capability =
     \<lparr>cap_id = ''image-generation'', cap_name = ''Image generation'',
      cap_description = ''Always overloaded'', cap_input = JStr ''string'',
      cap_output = JStr ''string'', cap_execute = (\<lambda>input config. throwM (Error ''Model overloaded''))\<rparr>"

definition example_model :: "unit ModelProvider" where
  "example_model = fst (ModelProviderBase ''openai'' ''OpenAI'' ''An example model'' (returnM ()) None [])"

definition example_heap :: "unit heap" where
  "example_heap =
     addCapability example_model failing_capability
       (addCapability example_model echo_capability
          (snd (ModelProviderBase ''openai'' ''OpenAI'' ''An example model'' (returnM ()) None [])))"

definition quiet_world :: "unit capability_world" where
  "quiet_world = \<lparr>events = [], iso_now = ''2025-01-01T00:00:00.000Z'', ext = ()\<rparr>"

text \<open>The character plugin's identity, and an empty registry.\<close>

definition character_plugin :: Plugin where
  "character_plugin =
     \<lparr>plugin_id = ''plugin-character'', plugin_name = ''Character'',
      plugin_description = ''Handles character related context injection for the agent''\<rparr>"

definition empty_registry :: "unit registry_world" where
  "empty_registry = \<lparr>events = [], plugins = []\<rparr>"

section \<open>Conversation memory: properties\<close>

lemmas prog_defs = returnM_def throwM_def bindM_def catchM_def publishEvent_def invoke_def Date_now_def

lemmas resolve_defs = getOrCreateConversation_def getConversation_def createConversation_def

lemma getOrCreateConversation_result:
  "fst (getOrCreateConversation P user platform w) =
     (let cid = generateConversationId user platform;
          g = mp_getConversation P cid (pstate w)
      in case fst g of
           Inr _ \<Rightarrow> Inr cid
         | Inl _ \<Rightarrow> (case fst (mp_createConversation P (Some \<lparr>opt_id = Some cid, opt_metadata = None\<rparr>) (snd g)) of
                       Inr _ \<Rightarrow> Inr cid
                     | Inl e \<Rightarrow> Inl e))"
  by (auto simp add: resolve_defs prog_defs Let_def split: prod.splits sum.splits)

lemma getOrCreateConversation_calls:
  "calls (snd (getOrCreateConversation P user platform w)) =
     (let cid = generateConversationId user platform
      in calls w @ GetConversation cid #
           (case fst (mp_getConversation P cid (pstate w)) of
              Inr _ \<Rightarrow> []
            | Inl _ \<Rightarrow> [CreateConversation (Some \<lparr>opt_id = Some cid, opt_metadata = None\<rparr>)]))"
  by (auto simp add: resolve_defs prog_defs Let_def split: prod.splits sum.splits)

lemma getOrCreateConversation_pstate:
  "pstate (snd (getOrCreateConversation P user platform w)) =
     (let cid = generateConversationId user platform;
          g = mp_getConversation P cid (pstate w)
      in case fst g of
           Inr _ \<Rightarrow> snd g
         | Inl _ \<Rightarrow> snd (mp_createConversation P (Some \<lparr>opt_id = Some cid, opt_metadata = None\<rparr>) (snd g)))"
  by (auto simp add: resolve_defs prog_defs Let_def split: prod.splits sum.splits)

lemma getOrCreateConversation_returns:
  "fst (getOrCreateConversation P user platform w) = Inr x \<Longrightarrow> x = generateConversationId user platform"
  by (auto simp add: getOrCreateConversation_result Let_def split: sum.splits)

lemma getOrCreateConversation_events:
  "fst (getOrCreateConversation P user platform (w\<lparr>events := es\<rparr>)) = fst (getOrCreateConversation P user platform w)"
  "calls (snd (getOrCreateConversation P user platform (w\<lparr>events := es\<rparr>))) = calls (snd (getOrCreateConversation P user platform w))"
  "pstate (snd (getOrCreateConversation P user platform (w\<lparr>events := es\<rparr>))) = pstate (snd (getOrCreateConversation P user platform w))"
  "now (snd (getOrCreateConversation P user platform w)) = now w"
  by (auto simp add: resolve_defs prog_defs Let_def split: prod.splits sum.splits)

lemma storeAssistantInteraction_result:
  "fst (storeAssistantInteraction JSON_stringify P user platform response contextChain w) =
     (let g = getOrCreateConversation P user platform w;
          ts = Number_toString (now w)
      in case fst g of
           Inl e \<Rightarrow> Inl e
         | Inr cid \<Rightarrow>
             if falsy (optional_id (first_item contextChain))
             then Inl (Error ''No user message ID found in context chain'')
             else
               (let c = mp_storeContext P
                          \<lparr>ctx_id = cid @ ''-context-'' @ ts, ctx_type = ''context_chain'',
                           ctx_content = JSON_stringify (JArr contextChain), ctx_timestamp = now w\<rparr>
                          cid (pstate (snd g))
                in case fst c of
                     Inl e \<Rightarrow> Inl e
                   | Inr _ \<Rightarrow>
                       (case fst (mp_storeMessage P
                                    \<lparr>msg_id = cid @ ''-assistant-'' @ ts, msg_role = ''assistant'',
                                     msg_content = response, msg_timestamp = now w,
                                     msg_contextId = Some (cid @ ''-context-'' @ ts),
                                     msg_user_message_id = Some (optional_id (first_item contextChain))\<rparr>
                                    cid (snd c)) of
                          Inl e \<Rightarrow> Inl e
                        | Inr _ \<Rightarrow> Inr ())))"
  by (simp add: storeAssistantInteraction_def storeContext_def storeMessage_def prog_defs Let_def
        case_prod_beta getOrCreateConversation_events split: sum.splits)

lemma storeAssistantInteraction_calls:
  "calls (snd (storeAssistantInteraction JSON_stringify P user platform response contextChain w)) =
     (let g = getOrCreateConversation P user platform w;
          ts = Number_toString (now w)
      in calls (snd g) @
         (case fst g of
           Inl e \<Rightarrow> []
         | Inr cid \<Rightarrow>
             if falsy (optional_id (first_item contextChain))
             then []
             else
               (let ctx = \<lparr>ctx_id = cid @ ''-context-'' @ ts, ctx_type = ''context_chain'',
                           ctx_content = JSON_stringify (JArr contextChain), ctx_timestamp = now w\<rparr>
                in StoreContext ctx cid #
                   (case fst (mp_storeContext P ctx cid (pstate (snd g))) of
                     Inl e \<Rightarrow> []
                   | Inr _ \<Rightarrow>
                       [StoreMessage
                          \<lparr>msg_id = cid @ ''-assistant-'' @ ts, msg_role = ''assistant'',
                           msg_content = response, msg_timestamp = now w,
                           msg_contextId = Some (cid @ ''-context-'' @ ts),
                           msg_user_message_id = Some (optional_id (first_item contextChain))\<rparr>
                          cid]))))"
  by (simp add: storeAssistantInteraction_def storeContext_def storeMessage_def prog_defs Let_def
        case_prod_beta getOrCreateConversation_events split: sum.splits)

lemma storeAssistantInteraction_pstate:
  "pstate (snd (storeAssistantInteraction JSON_stringify P user platform response contextChain w)) =
     (let g = getOrCreateConversation P user platform w;
          ts = Number_toString (now w)
      in case fst g of
           Inl e \<Rightarrow> pstate (snd g)
         | Inr cid \<Rightarrow>
             if falsy (optional_id (first_item contextChain))
             then pstate (snd g)
             else
               (let c = mp_storeContext P
                          \<lparr>ctx_id = cid @ ''-context-'' @ ts, ctx_type = ''context_chain'',
                           ctx_content = JSON_stringify (JArr contextChain), ctx_timestamp = now w\<rparr>
                          cid (pstate (snd g))
                in case fst c of
                     Inl e \<Rightarrow> snd c
                   | Inr _ \<Rightarrow>
                       snd (mp_storeMessage P
                              \<lparr>msg_id = cid @ ''-assistant-'' @ ts, msg_role = ''assistant'',
                               msg_content = response, msg_timestamp = now w,
                               msg_contextId = Some (cid @ ''-context-'' @ ts),
                               msg_user_message_id = Some (optional_id (first_item contextChain))\<rparr>
                              cid (snd c))))"
  by (simp add: storeAssistantInteraction_def storeContext_def storeMessage_def prog_defs Let_def
        case_prod_beta getOrCreateConversation_events split: sum.splits)

lemma storeAssistantInteraction_pstate_invalid:
  "falsy (optional_id (first_item contextChain)) \<Longrightarrow>
   pstate (snd (storeAssistantInteraction JSON_stringify P user platform response contextChain w)) =
   pstate (snd (getOrCreateConversation P user platform w))"
  by (simp add: storeAssistantInteraction_pstate Let_def split: sum.splits)

lemma lacks_id_falsy:
  "contextChain = [] \<or> item_id (hd contextChain) = None \<Longrightarrow> falsy (optional_id (first_item contextChain))"
  by (cases contextChain) (auto simp add: falsy_def optional_id_def first_item_def item_id_def)




lemma Number_toString_2000: "Number_toString 2000 = ''2000''"
  by (simp add: Number_toString_def string_of_nat.simps digit_char_def)

lemma stringify_example:
  "example_stringify (JArr [JObj [(''pluginId'', JStr ''plugin-text''), (''id'', JStr ''web-1000'')]]) =
     [CHR ''['', CHR ''{'', CHR 0x22] @ ''pluginId'' @ [CHR 0x22, CHR '':'', CHR 0x22] @ ''plugin-text''
     @ [CHR 0x22, CHR '','', CHR 0x22, CHR ''i'', CHR ''d'', CHR 0x22, CHR '':'', CHR 0x22] @ ''web-1000''
     @ [CHR 0x22, CHR ''}'', CHR '']'']"
  by (simp add: example_stringify_def json_quote_def json_escape_def)

text \<open>
  C10. The conversation is resolved or created before the processing chain is checked:
  for every call whose chain is empty or whose first element has no id, the requests
  that reach the provider are the fetch of the conversation and, when the fetch failed,
  the create request; the provider is left in the state those requests produced, and the
  operation fails.
\<close>

theorem storeAssistantInteraction_resolves_before_validation:
  assumes "contextChain = [] \<or> item_id (hd contextChain) = None"
  shows "let cid = generateConversationId user platform;
             opts = Some \<lparr>opt_id = Some cid, opt_metadata = None\<rparr>;
             g = mp_getConversation P cid (pstate w);
             r = storeAssistantInteraction JSON_stringify P user platform response contextChain w
         in (\<exists>e. fst r = Inl e)
          \<and> calls (snd r) = calls w @ GetConversation cid #
               (case fst g of Inr _ \<Rightarrow> [] | Inl _ \<Rightarrow> [CreateConversation opts])
          \<and> pstate (snd r) =
               (case fst g of Inr _ \<Rightarrow> snd g | Inl _ \<Rightarrow> snd (mp_createConversation P opts (snd g)))"
proof -
  have f: "falsy (optional_id (first_item contextChain))"
    using assms by (rule lacks_id_falsy)
  have "\<exists>e. fst (storeAssistantInteraction JSON_stringify P user platform response contextChain w) = Inl e"
    using f by (simp add: storeAssistantInteraction_result Let_def split: sum.splits)
  moreover have "calls (snd (storeAssistantInteraction JSON_stringify P user platform response contextChain w)) =
      calls (snd (getOrCreateConversation P user platform w))"
    using f by (simp add: storeAssistantInteraction_calls Let_def split: sum.splits)
  moreover note storeAssistantInteraction_pstate_invalid [OF f, of JSON_stringify P user platform response w]
  ultimately show ?thesis
    by (simp add: Let_def getOrCreateConversation_calls getOrCreateConversation_pstate)
qed

theorem storeAssistantInteraction_resolves_before_validation_witness:
  "fst (storeAssistantInteraction example_stringify store_provider ''alice'' ''web'' ''hello'' []
          (world_at_2000 [])) =
     Inl (Error ''No user message ID found in context chain'')
   \<and> calls (snd (storeAssistantInteraction example_stringify store_provider ''alice'' ''web'' ''hello'' []
                   (world_at_2000 []))) =
       [GetConversation ''web-alice'',
        CreateConversation (Some \<lparr>opt_id = Some ''web-alice'', opt_metadata = None\<rparr>)]
   \<and> pstate (snd (storeAssistantInteraction example_stringify store_provider ''alice'' ''web'' ''hello'' []
                    (world_at_2000 []))) =
       [\<lparr>conv_id = ''web-alice'', conv_messages = [], conv_contexts = [], conv_metadata = None\<rparr>]"
  using storeAssistantInteraction_resolves_before_validation
          [where contextChain = "[]" and JSON_stringify = example_stringify and P = store_provider
             and user = "''alice''" and platform = "''web''" and response = "''hello''"
             and w = "world_at_2000 []"]
  by (simp add: Let_def storeAssistantInteraction_result getOrCreateConversation_result falsy_def
        optional_id_def first_item_def item_id_def store_provider_def world_at_2000_def
        generateConversationId_def)

text \<open>
  What a successful call did. \<open>resolved\<close> below is the provider state the conversation
  lookup left: the state after the fetch when it succeeded, after the create otherwise.
\<close>

lemma storeAssistantInteraction_success:
  assumes "fst (storeAssistantInteraction JSON_stringify P user platform response contextChain w) = Inr u"
  shows "\<exists>first rest uid. contextChain = first # rest \<and> item_id first = Some uid \<and> \<not> falsy uid
           \<and> optional_id (first_item contextChain) = uid"
    and "fst (getOrCreateConversation P user platform w) = Inr (generateConversationId user platform)"
    and "fst (mp_storeContext P
                \<lparr>ctx_id = generateConversationId user platform @ ''-context-'' @ Number_toString (now w),
                 ctx_type = ''context_chain'',
                 ctx_content = JSON_stringify (JArr contextChain), ctx_timestamp = now w\<rparr>
                (generateConversationId user platform)
                (pstate (snd (getOrCreateConversation P user platform w)))) = Inr ()"
    and "fst (mp_storeMessage P
                \<lparr>msg_id = generateConversationId user platform @ ''-assistant-'' @ Number_toString (now w),
                 msg_role = ''assistant'', msg_content = response, msg_timestamp = now w,
                 msg_contextId = Some (generateConversationId user platform @ ''-context-'' @ Number_toString (now w)),
                 msg_user_message_id = Some (optional_id (first_item contextChain))\<rparr>
                (generateConversationId user platform)
                (snd (mp_storeContext P
                        \<lparr>ctx_id = generateConversationId user platform @ ''-context-'' @ Number_toString (now w),
                         ctx_type = ''context_chain'',
                         ctx_content = JSON_stringify (JArr contextChain), ctx_timestamp = now w\<rparr>
                        (generateConversationId user platform)
                        (pstate (snd (getOrCreateConversation P user platform w)))))) = Inr ()"
proof -
  obtain x where g: "fst (getOrCreateConversation P user platform w) = Inr x"
    using assms by (auto simp add: storeAssistantInteraction_result Let_def split: sum.splits)
  then have x: "x = generateConversationId user platform"
    by (rule getOrCreateConversation_returns)
  show g': "fst (getOrCreateConversation P user platform w) = Inr (generateConversationId user platform)"
    using g x by simp
  have nf: "\<not> falsy (optional_id (first_item contextChain))"
    using assms g by (auto simp add: storeAssistantInteraction_result Let_def split: sum.splits if_splits)
  show "\<exists>first rest uid. contextChain = first # rest \<and> item_id first = Some uid \<and> \<not> falsy uid
           \<and> optional_id (first_item contextChain) = uid"
  proof (cases contextChain)
    case Nil
    with nf show ?thesis
      by (simp add: falsy_def optional_id_def first_item_def item_id_def)
  next
    case (Cons first rest)
    with nf obtain uid where "item_id first = Some uid"
      by (cases "item_id first") (auto simp add: falsy_def optional_id_def first_item_def)
    with nf Cons show ?thesis
      by (simp add: optional_id_def first_item_def)
  qed
  show c: "fst (mp_storeContext P
                \<lparr>ctx_id = generateConversationId user platform @ ''-context-'' @ Number_toString (now w),
                 ctx_type = ''context_chain'',
                 ctx_content = JSON_stringify (JArr contextChain), ctx_timestamp = now w\<rparr>
                (generateConversationId user platform)
                (pstate (snd (getOrCreateConversation P user platform w)))) = Inr ()"
    using assms g' nf
    by (auto simp add: storeAssistantInteraction_result Let_def split: sum.splits)
  show "fst (mp_storeMessage P
                \<lparr>msg_id = generateConversationId user platform @ ''-assistant-'' @ Number_toString (now w),
                 msg_role = ''assistant'', msg_content = response, msg_timestamp = now w,
                 msg_contextId = Some (generateConversationId user platform @ ''-context-'' @ Number_toString (now w)),
                 msg_user_message_id = Some (optional_id (first_item contextChain))\<rparr>
                (generateConversationId user platform)
                (snd (mp_storeContext P
                        \<lparr>ctx_id = generateConversationId user platform @ ''-context-'' @ Number_toString (now w),
                         ctx_type = ''context_chain'',
                         ctx_content = JSON_stringify (JArr contextChain), ctx_timestamp = now w\<rparr>
                        (generateConversationId user platform)
                        (pstate (snd (getOrCreateConversation P user platform w)))))) = Inr ()"
    using assms g' nf c
    by (auto simp add: storeAssistantInteraction_result Let_def split: sum.splits)
qed

lemma storeAssistantInteraction_success_calls:
  assumes "fst (storeAssistantInteraction JSON_stringify P user platform response contextChain w) = Inr u"
  shows "calls (snd (storeAssistantInteraction JSON_stringify P user platform response contextChain w)) =
     calls (snd (getOrCreateConversation P user platform w)) @
       [StoreContext
          \<lparr>ctx_id = generateConversationId user platform @ ''-context-'' @ Number_toString (now w),
           ctx_type = ''context_chain'',
           ctx_content = JSON_stringify (JArr contextChain), ctx_timestamp = now w\<rparr>
          (generateConversationId user platform),
        StoreMessage
          \<lparr>msg_id = generateConversationId user platform @ ''-assistant-'' @ Number_toString (now w),
           msg_role = ''assistant'', msg_content = response, msg_timestamp = now w,
           msg_contextId = Some (generateConversationId user platform @ ''-context-'' @ Number_toString (now w)),
           msg_user_message_id = Some (optional_id (first_item contextChain))\<rparr>
          (generateConversationId user platform)]"
proof -
  note s = storeAssistantInteraction_success [OF assms]
  from s(1) have nf: "\<not> falsy (optional_id (first_item contextChain))"
    by auto
  show ?thesis
    using s(2) s(3) nf
    by (simp add: storeAssistantInteraction_calls Let_def)
qed

lemma storeAssistantInteraction_success_pstate:
  assumes "fst (storeAssistantInteraction JSON_stringify P user platform response contextChain w) = Inr u"
  shows "pstate (snd (storeAssistantInteraction JSON_stringify P user platform response contextChain w)) =
     snd (mp_storeMessage P
            \<lparr>msg_id = generateConversationId user platform @ ''-assistant-'' @ Number_toString (now w),
             msg_role = ''assistant'', msg_content = response, msg_timestamp = now w,
             msg_contextId = Some (generateConversationId user platform @ ''-context-'' @ Number_toString (now w)),
             msg_user_message_id = Some (optional_id (first_item contextChain))\<rparr>
            (generateConversationId user platform)
            (snd (mp_storeContext P
                    \<lparr>ctx_id = generateConversationId user platform @ ''-context-'' @ Number_toString (now w),
                     ctx_type = ''context_chain'',
                     ctx_content = JSON_stringify (JArr contextChain), ctx_timestamp = now w\<rparr>
                    (generateConversationId user platform)
                    (pstate (snd (getOrCreateConversation P user platform w))))))"
proof -
  note s = storeAssistantInteraction_success [OF assms]
  from s(1) have nf: "\<not> falsy (optional_id (first_item contextChain))"
    by auto
  show ?thesis
    using s(2) s(3) nf
    by (simp add: storeAssistantInteraction_pstate Let_def)
qed

text \<open>
  C2. In every successful call the requests that reach the provider end with the
  storeContext request directly followed by the storeMessage request, and no other write
  comes before them. The provider answered the storeContext request without error in the
  state the conversation lookup left; the storeMessage request then ran on the state
  that the context write produced, so the context was in storage when the message was
  written; and the state the message write produced is the one the call leaves. The
  message's \<open>contextId\<close> is the id of that context.
\<close>

theorem storeAssistantInteraction_context_before_message:
  assumes "fst (storeAssistantInteraction JSON_stringify P user platform response contextChain w) = Inr u"
  shows "let cid = generateConversationId user platform;
             opts = Some \<lparr>opt_id = Some cid, opt_metadata = None\<rparr>;
             g = mp_getConversation P cid (pstate w);
             resolved = (case fst g of Inr _ \<Rightarrow> snd g | Inl _ \<Rightarrow> snd (mp_createConversation P opts (snd g)));
             r = storeAssistantInteraction JSON_stringify P user platform response contextChain w
         in \<exists>pre ctx msg s1 s2.
              calls (snd r) = calls w @ pre @ [StoreContext ctx cid, StoreMessage msg cid]
            \<and> filter is_write pre = []
            \<and> mp_storeContext P ctx cid resolved = (Inr (), s1)
            \<and> mp_storeMessage P msg cid s1 = (Inr (), s2)
            \<and> pstate (snd r) = s2
            \<and> msg_contextId msg = Some (ctx_id ctx)"
proof -
  note s = storeAssistantInteraction_success [OF assms]
  let ?cid = "generateConversationId user platform"
  let ?resolved = "pstate (snd (getOrCreateConversation P user platform w))"
  let ?pre = "GetConversation ?cid #
           (case fst (mp_getConversation P ?cid (pstate w)) of
              Inr _ \<Rightarrow> []
            | Inl _ \<Rightarrow> [CreateConversation (Some \<lparr>opt_id = Some ?cid, opt_metadata = None\<rparr>)])"
  let ?ctx = "\<lparr>ctx_id = ?cid @ ''-context-'' @ Number_toString (now w),
           ctx_type = ''context_chain'',
           ctx_content = JSON_stringify (JArr contextChain), ctx_timestamp = now w\<rparr>"
  let ?msg = "\<lparr>msg_id = ?cid @ ''-assistant-'' @ Number_toString (now w),
           msg_role = ''assistant'', msg_content = response, msg_timestamp = now w,
           msg_contextId = Some (?cid @ ''-context-'' @ Number_toString (now w)),
           msg_user_message_id = Some (optional_id (first_item contextChain))\<rparr>"
  let ?s1 = "snd (mp_storeContext P ?ctx ?cid ?resolved)"
  let ?s2 = "snd (mp_storeMessage P ?msg ?cid ?s1)"
  have a: "calls (snd (storeAssistantInteraction JSON_stringify P user platform response contextChain w)) =
          calls w @ ?pre @ [StoreContext ?ctx ?cid, StoreMessage ?msg ?cid]"
    by (simp add: storeAssistantInteraction_success_calls [OF assms] getOrCreateConversation_calls Let_def)
  have b: "filter is_write ?pre = []"
    by (simp add: is_write_def split: sum.splits)
  have c: "mp_storeContext P ?ctx ?cid ?resolved = (Inr (), ?s1)"
    using s(3) by (simp add: prod_eq_iff)
  have d: "mp_storeMessage P ?msg ?cid ?s1 = (Inr (), ?s2)"
    using s(4) by (simp add: prod_eq_iff)
  have e: "pstate (snd (storeAssistantInteraction JSON_stringify P user platform response contextChain w)) = ?s2"
    by (rule storeAssistantInteraction_success_pstate [OF assms])
  have f: "msg_contextId ?msg = Some (ctx_id ?ctx)"
    by simp
  have r: "?resolved =
      (case fst (mp_getConversation P ?cid (pstate w)) of
         Inr _ \<Rightarrow> snd (mp_getConversation P ?cid (pstate w))
       | Inl _ \<Rightarrow> snd (mp_createConversation P (Some \<lparr>opt_id = Some ?cid, opt_metadata = None\<rparr>)
                        (snd (mp_getConversation P ?cid (pstate w)))))"
    by (simp add: getOrCreateConversation_pstate Let_def)
  from a b c d e f show ?thesis
    unfolding Let_def r [symmetric] by blast
qed

lemma store_provider_success:
  "fst (storeAssistantInteraction example_stringify store_provider ''alice'' ''web'' ''hello''
          [JObj [(''pluginId'', JStr ''plugin-text''), (''id'', JStr ''web-1000'')]] (world_at_2000 [])) = Inr ()"
  by (simp add: storeAssistantInteraction_result getOrCreateConversation_result getOrCreateConversation_pstate
        Let_def falsy_def optional_id_def first_item_def item_id_def store_provider_def world_at_2000_def
        generateConversationId_def holds_def)

lemma store_provider_final_state:
  "pstate (snd (storeAssistantInteraction example_stringify store_provider ''alice'' ''web'' ''hello''
                  [JObj [(''pluginId'', JStr ''plugin-text''), (''id'', JStr ''web-1000'')]] (world_at_2000 []))) =
     [\<lparr>conv_id = ''web-alice'',
       conv_messages =
         [\<lparr>msg_id = ''web-alice-assistant-2000'', msg_role = ''assistant'', msg_content = ''hello'',
           msg_timestamp = 2000, msg_contextId = Some ''web-alice-context-2000'',
           msg_user_message_id = Some (JStr ''web-1000'')\<rparr>],
       conv_contexts =
         [\<lparr>ctx_id = ''web-alice-context-2000'', ctx_type = ''context_chain'',
           ctx_content = [CHR ''['', CHR ''{'', CHR 0x22] @ ''pluginId'' @ [CHR 0x22, CHR '':'', CHR 0x22]
                         @ ''plugin-text'' @ [CHR 0x22, CHR '','', CHR 0x22, CHR ''i'', CHR ''d'', CHR 0x22,
                                                CHR '':'', CHR 0x22]
                         @ ''web-1000'' @ [CHR 0x22, CHR ''}'', CHR '']''],
           ctx_timestamp = 2000\<rparr>],
       conv_metadata = None\<rparr>]"
  unfolding storeAssistantInteraction_success_pstate [OF store_provider_success]
  by (simp add: getOrCreateConversation_pstate Let_def optional_id_def first_item_def item_id_def
        store_provider_def world_at_2000_def generateConversationId_def holds_def
        Number_toString_2000 stringify_example)

theorem storeAssistantInteraction_context_before_message_witness:
  "(\<exists>pre ctx msg s1 s2.
      calls (snd (storeAssistantInteraction example_stringify store_provider ''alice'' ''web'' ''hello''
                    [JObj [(''pluginId'', JStr ''plugin-text''), (''id'', JStr ''web-1000'')]]
                    (world_at_2000 []))) =
        pre @ [StoreContext ctx ''web-alice'', StoreMessage msg ''web-alice'']
    \<and> filter is_write pre = []
    \<and> mp_storeContext store_provider ctx ''web-alice''
         [\<lparr>conv_id = ''web-alice'', conv_messages = [], conv_contexts = [], conv_metadata = None\<rparr>] =
       (Inr (), s1)
    \<and> mp_storeMessage store_provider msg ''web-alice'' s1 = (Inr (), s2)
    \<and> pstate (snd (storeAssistantInteraction example_stringify store_provider ''alice'' ''web'' ''hello''
                     [JObj [(''pluginId'', JStr ''plugin-text''), (''id'', JStr ''web-1000'')]]
                     (world_at_2000 []))) = s2
    \<and> msg_contextId msg = Some (ctx_id ctx))
   \<and> map ctx_id (conv_contexts (hd (pstate (snd
        (storeAssistantInteraction example_stringify store_provider ''alice'' ''web'' ''hello''
           [JObj [(''pluginId'', JStr ''plugin-text''), (''id'', JStr ''web-1000'')]]
           (world_at_2000 [])))))) = [''web-alice-context-2000'']
   \<and> map msg_contextId (conv_messages (hd (pstate (snd
        (storeAssistantInteraction example_stringify store_provider ''alice'' ''web'' ''hello''
           [JObj [(''pluginId'', JStr ''plugin-text''), (''id'', JStr ''web-1000'')]]
           (world_at_2000 [])))))) = [Some ''web-alice-context-2000'']"
proof -
  have r: "(case fst (mp_getConversation store_provider ''web-alice'' []) of
              Inr _ \<Rightarrow> snd (mp_getConversation store_provider ''web-alice'' [])
            | Inl _ \<Rightarrow> snd (mp_createConversation store_provider
                               (Some \<lparr>opt_id = Some ''web-alice'', opt_metadata = None\<rparr>)
                               (snd (mp_getConversation store_provider ''web-alice'' [])))) =
           [\<lparr>conv_id = ''web-alice'', conv_messages = [], conv_contexts = [], conv_metadata = None\<rparr>]"
    by (simp add: store_provider_def)
  have g: "generateConversationId ''alice'' ''web'' = ''web-alice''"
    by (simp add: generateConversationId_def)
  have pw: "pstate (world_at_2000 ([] :: Conversation list)) = []"
    and cw: "calls (world_at_2000 ([] :: Conversation list)) = []"
    by (simp_all add: world_at_2000_def)
  note t = storeAssistantInteraction_context_before_message
             [OF store_provider_success, unfolded Let_def g pw cw r append_Nil]
  show ?thesis
    by (intro conjI t) (simp_all add: store_provider_final_state)
qed

text \<open>
  C3. In every successful call the chain is not empty and its first element has an id.
  The two writes that reach the provider are the context
  \<open>{id: conversationId-context-timestamp, type: context_chain, content: the serialization
  of the whole chain}\<close> and then the message \<open>{id: conversationId-assistant-timestamp,
  role: assistant, contextId: the context's id, user_message_id: the first element's
  id}\<close>, both with the one clock reading as timestamp; and the provider is left in the
  state that these two writes, in this order, produced from the state the conversation
  lookup left.
\<close>

theorem storeAssistantInteraction_stored_records:
  assumes "fst (storeAssistantInteraction JSON_stringify P user platform response contextChain w) = Inr u"
  shows "\<exists>first rest uid.
           contextChain = first # rest \<and> item_id first = Some uid
         \<and> (let conversationId = platform @ ''-'' @ user;
                 timestamp = now w;
                 context = \<lparr>ctx_id = conversationId @ ''-context-'' @ Number_toString timestamp,
                            ctx_type = ''context_chain'',
                            ctx_content = JSON_stringify (JArr contextChain),
                            ctx_timestamp = timestamp\<rparr>;
                 message = \<lparr>msg_id = conversationId @ ''-assistant-'' @ Number_toString timestamp,
                            msg_role = ''assistant'',
                            msg_content = response,
                            msg_timestamp = timestamp,
                            msg_contextId = Some (ctx_id context),
                            msg_user_message_id = Some uid\<rparr>;
                 opts = Some \<lparr>opt_id = Some conversationId, opt_metadata = None\<rparr>;
                 g = mp_getConversation P conversationId (pstate w);
                 resolved = (case fst g of
                               Inr _ \<Rightarrow> snd g
                             | Inl _ \<Rightarrow> snd (mp_createConversation P opts (snd g)));
                 r = storeAssistantInteraction JSON_stringify P user platform response contextChain w
             in filter is_write (drop (length (calls w)) (calls (snd r))) =
                  [StoreContext context conversationId, StoreMessage message conversationId]
              \<and> pstate (snd r) =
                  snd (mp_storeMessage P message conversationId
                         (snd (mp_storeContext P context conversationId resolved))))"
proof -
  note s = storeAssistantInteraction_success [OF assms]
  from s(1) obtain first rest uid where
    c: "contextChain = first # rest" "item_id first = Some uid"
       "optional_id (first_item contextChain) = uid"
    by blast
  have w: "filter is_write
          (drop (length (calls w))
             (calls (snd (storeAssistantInteraction JSON_stringify P user platform response contextChain w)))) =
        [StoreContext
          \<lparr>ctx_id = generateConversationId user platform @ ''-context-'' @ Number_toString (now w),
           ctx_type = ''context_chain'',
           ctx_content = JSON_stringify (JArr contextChain), ctx_timestamp = now w\<rparr>
          (generateConversationId user platform),
        StoreMessage
          \<lparr>msg_id = generateConversationId user platform @ ''-assistant-'' @ Number_toString (now w),
           msg_role = ''assistant'', msg_content = response, msg_timestamp = now w,
           msg_contextId = Some (generateConversationId user platform @ ''-context-'' @ Number_toString (now w)),
           msg_user_message_id = Some uid\<rparr>
          (generateConversationId user platform)]"
    by (simp add: storeAssistantInteraction_success_calls [OF assms] getOrCreateConversation_calls
          Let_def is_write_def c(3) split: sum.splits)
  have p: "pstate (snd (storeAssistantInteraction JSON_stringify P user platform response contextChain w)) =
     snd (mp_storeMessage P
            \<lparr>msg_id = generateConversationId user platform @ ''-assistant-'' @ Number_toString (now w),
             msg_role = ''assistant'', msg_content = response, msg_timestamp = now w,
             msg_contextId = Some (generateConversationId user platform @ ''-context-'' @ Number_toString (now w)),
             msg_user_message_id = Some uid\<rparr>
            (generateConversationId user platform)
            (snd (mp_storeContext P
                    \<lparr>ctx_id = generateConversationId user platform @ ''-context-'' @ Number_toString (now w),
                     ctx_type = ''context_chain'',
                     ctx_content = JSON_stringify (JArr contextChain), ctx_timestamp = now w\<rparr>
                    (generateConversationId user platform)
                    (case fst (mp_getConversation P (generateConversationId user platform) (pstate w)) of
                       Inr _ \<Rightarrow> snd (mp_getConversation P (generateConversationId user platform) (pstate w))
                     | Inl _ \<Rightarrow> snd (mp_createConversation P
                                       (Some \<lparr>opt_id = Some (generateConversationId user platform), opt_metadata = None\<rparr>)
                                       (snd (mp_getConversation P (generateConversationId user platform) (pstate w))))))))"
    by (simp add: storeAssistantInteraction_success_pstate [OF assms] getOrCreateConversation_pstate
          Let_def c(3))
  note w' = w [unfolded generateConversationId_def]
  note p' = p [unfolded generateConversationId_def]
  show ?thesis
    unfolding Let_def
    by (rule exI [of _ first], rule exI [of _ rest], rule exI [of _ uid])
       (simp add: c(1) [symmetric] c(2) w' p')
qed

theorem storeAssistantInteraction_stored_records_witness:
  "fst (storeAssistantInteraction example_stringify store_provider ''alice'' ''web'' ''hello''
          [JObj [(''pluginId'', JStr ''plugin-text''), (''id'', JStr ''web-1000'')]] (world_at_2000 [])) = Inr ()
   \<and> filter is_write
        (calls (snd (storeAssistantInteraction example_stringify store_provider ''alice'' ''web'' ''hello''
                  [JObj [(''pluginId'', JStr ''plugin-text''), (''id'', JStr ''web-1000'')]]
                  (world_at_2000 [])))) =
      [StoreContext
         \<lparr>ctx_id = ''web-alice-context-2000'', ctx_type = ''context_chain'',
          ctx_content = [CHR ''['', CHR ''{'', CHR 0x22] @ ''pluginId'' @ [CHR 0x22, CHR '':'', CHR 0x22]
                        @ ''plugin-text'' @ [CHR 0x22, CHR '','', CHR 0x22, CHR ''i'', CHR ''d'', CHR 0x22,
                                               CHR '':'', CHR 0x22]
                        @ ''web-1000'' @ [CHR 0x22, CHR ''}'', CHR '']''],
          ctx_timestamp = 2000\<rparr>
         ''web-alice'',
       StoreMessage
         \<lparr>msg_id = ''web-alice-assistant-2000'', msg_role = ''assistant'', msg_content = ''hello'',
          msg_timestamp = 2000, msg_contextId = Some ''web-alice-context-2000'',
          msg_user_message_id = Some (JStr ''web-1000'')\<rparr>
         ''web-alice'']
   \<and> pstate (snd (storeAssistantInteraction example_stringify store_provider ''alice'' ''web'' ''hello''
                    [JObj [(''pluginId'', JStr ''plugin-text''), (''id'', JStr ''web-1000'')]]
                    (world_at_2000 []))) =
      [\<lparr>conv_id = ''web-alice'',
        conv_messages =
          [\<lparr>msg_id = ''web-alice-assistant-2000'', msg_role = ''assistant'', msg_content = ''hello'',
            msg_timestamp = 2000, msg_contextId = Some ''web-alice-context-2000'',
            msg_user_message_id = Some (JStr ''web-1000'')\<rparr>],
        conv_contexts =
          [\<lparr>ctx_id = ''web-alice-context-2000'', ctx_type = ''context_chain'',
            ctx_content = [CHR ''['', CHR ''{'', CHR 0x22] @ ''pluginId'' @ [CHR 0x22, CHR '':'', CHR 0x22]
                          @ ''plugin-text'' @ [CHR 0x22, CHR '','', CHR 0x22, CHR ''i'', CHR ''d'', CHR 0x22,
                                                 CHR '':'', CHR 0x22]
                          @ ''web-1000'' @ [CHR 0x22, CHR ''}'', CHR '']''],
            ctx_timestamp = 2000\<rparr>],
        conv_metadata = None\<rparr>]"
proof -
  have i: "item_id (JObj [(''pluginId'', JStr ''plugin-text''), (''id'', JStr ''web-1000'')]) =
           Some (JStr ''web-1000'')"
    by (simp add: item_id_def)
  from storeAssistantInteraction_stored_records [OF store_provider_success]
  have "filter is_write
        (calls (snd (storeAssistantInteraction example_stringify store_provider ''alice'' ''web'' ''hello''
                  [JObj [(''pluginId'', JStr ''plugin-text''), (''id'', JStr ''web-1000'')]]
                  (world_at_2000 [])))) =
      [StoreContext
         \<lparr>ctx_id = ''web-alice-context-2000'', ctx_type = ''context_chain'',
          ctx_content = [CHR ''['', CHR ''{'', CHR 0x22] @ ''pluginId'' @ [CHR 0x22, CHR '':'', CHR 0x22]
                        @ ''plugin-text'' @ [CHR 0x22, CHR '','', CHR 0x22, CHR ''i'', CHR ''d'', CHR 0x22,
                                               CHR '':'', CHR 0x22]
                        @ ''web-1000'' @ [CHR 0x22, CHR ''}'', CHR '']''],
          ctx_timestamp = 2000\<rparr>
         ''web-alice'',
       StoreMessage
         \<lparr>msg_id = ''web-alice-assistant-2000'', msg_role = ''assistant'', msg_content = ''hello'',
          msg_timestamp = 2000, msg_contextId = Some ''web-alice-context-2000'',
          msg_user_message_id = Some (JStr ''web-1000'')\<rparr>
         ''web-alice'']"
    by (auto simp add: Let_def world_at_2000_def Number_toString_2000 stringify_example i)
  then show ?thesis
    using store_provider_success store_provider_final_state by simp
qed

lemma fetch_finds_createdD:
  "fetch_finds_created P \<Longrightarrow>
   fst (mp_createConversation P (Some \<lparr>opt_id = Some cid, opt_metadata = None\<rparr>) s) = Inr x \<Longrightarrow>
   \<exists>c. fst (mp_getConversation P cid
              (snd (mp_createConversation P (Some \<lparr>opt_id = Some cid, opt_metadata = None\<rparr>) s))) = Inr c"
  unfolding fetch_finds_created_def
  by (metis fst_conv prod.collapse)

lemma getOrCreateConversation_twice:
  assumes "fst (getOrCreateConversation P user platform w) = Inr x"
    and "fetch_finds_created P"
  shows "length (filter is_create
           (drop (length (calls w))
              (calls (snd (getOrCreateConversation P user platform
                             (snd (getOrCreateConversation P user platform w))))))) \<le> 1"
proof (cases "fst (mp_getConversation P (generateConversationId user platform) (pstate w))")
  case (Inr c)
  then show ?thesis
    by (simp add: getOrCreateConversation_calls getOrCreateConversation_pstate Let_def is_create_def
          split: sum.splits)
next
  case (Inl e)
  with assms(1) obtain y where
    y: "fst (mp_createConversation P
               (Some \<lparr>opt_id = Some (generateConversationId user platform), opt_metadata = None\<rparr>)
               (snd (mp_getConversation P (generateConversationId user platform) (pstate w)))) = Inr y"
    by (auto simp add: getOrCreateConversation_result Let_def split: sum.splits)
  from fetch_finds_createdD [OF assms(2) y] Inl show ?thesis
    by (auto simp add: getOrCreateConversation_calls getOrCreateConversation_pstate Let_def is_create_def)
qed

text \<open>
  C4, as amended. The conversation id is \<open>platform-user\<close>. When the fetch succeeds,
  \<open>getOrCreateConversation\<close> returns that id and sends no create request. When the fetch
  fails, for whatever reason, it sends one create request for that id, returns the id if
  the provider answers the request, and rethrows the provider's error if it does not. So
  every invocation that returns, returns the same id. Of two invocations in a row, at most
  one sends a create request, provided the first returned and the provider's fetch finds
  what it has created.
\<close>

theorem getOrCreateConversation_get_or_create:
  "let cid = platform @ ''-'' @ user;
       opts = Some \<lparr>opt_id = Some cid, opt_metadata = None\<rparr>;
       g = mp_getConversation P cid (pstate w);
       r = getOrCreateConversation P user platform w;
       r2 = getOrCreateConversation P user platform (snd r)
   in generateConversationId user platform = cid
    \<and> (case fst g of
         Inr _ \<Rightarrow> fst r = Inr cid \<and> calls (snd r) = calls w @ [GetConversation cid]
       | Inl _ \<Rightarrow> fst r = (case fst (mp_createConversation P opts (snd g)) of
                             Inr _ \<Rightarrow> Inr cid
                           | Inl e \<Rightarrow> Inl e)
                \<and> calls (snd r) = calls w @ [GetConversation cid, CreateConversation opts])
    \<and> ((\<exists>x. fst r = Inr x) \<and> fetch_finds_created P \<longrightarrow>
         length (filter is_create (drop (length (calls w)) (calls (snd r2)))) \<le> 1)"
proof -
  have a: "generateConversationId user platform = platform @ ''-'' @ user"
    by (simp add: generateConversationId_def)
  have b: "case fst (mp_getConversation P (generateConversationId user platform) (pstate w)) of
         Inr _ \<Rightarrow> fst (getOrCreateConversation P user platform w) = Inr (generateConversationId user platform)
                \<and> calls (snd (getOrCreateConversation P user platform w)) =
                    calls w @ [GetConversation (generateConversationId user platform)]
       | Inl _ \<Rightarrow> fst (getOrCreateConversation P user platform w) =
                    (case fst (mp_createConversation P
                                 (Some \<lparr>opt_id = Some (generateConversationId user platform), opt_metadata = None\<rparr>)
                                 (snd (mp_getConversation P (generateConversationId user platform) (pstate w)))) of
                             Inr _ \<Rightarrow> Inr (generateConversationId user platform)
                           | Inl e \<Rightarrow> Inl e)
                \<and> calls (snd (getOrCreateConversation P user platform w)) =
                    calls w @ [GetConversation (generateConversationId user platform),
                               CreateConversation (Some \<lparr>opt_id = Some (generateConversationId user platform), opt_metadata = None\<rparr>)]"
    by (simp add: getOrCreateConversation_result getOrCreateConversation_calls Let_def split: sum.splits)
  have c: "(\<exists>x. fst (getOrCreateConversation P user platform w) = Inr x) \<and> fetch_finds_created P \<longrightarrow>
         length (filter is_create (drop (length (calls w))
            (calls (snd (getOrCreateConversation P user platform
                           (snd (getOrCreateConversation P user platform w))))))) \<le> 1"
    using getOrCreateConversation_twice by blast
  show ?thesis
    unfolding Let_def a [symmetric] by (intro conjI refl b c)
qed

lemma find_snoc:
  "find p (xs @ [x]) = (case find p xs of Some y \<Rightarrow> Some y | None \<Rightarrow> if p x then Some x else None)"
  by (induction xs) simp_all

lemma store_provider_fetch_finds_created: "fetch_finds_created store_provider"
  by (simp add: fetch_finds_created_def store_provider_def find_snoc split: option.splits)

theorem getOrCreateConversation_get_or_create_witness:
  "fetch_finds_created store_provider
   \<and> fst (getOrCreateConversation store_provider ''alice'' ''web'' (world_at_2000 [])) = Inr ''web-alice''
   \<and> fst (getOrCreateConversation store_provider ''alice'' ''web''
            (snd (getOrCreateConversation store_provider ''alice'' ''web'' (world_at_2000 [])))) = Inr ''web-alice''
   \<and> calls (snd (getOrCreateConversation store_provider ''alice'' ''web'' (world_at_2000 []))) =
       [GetConversation ''web-alice'',
        CreateConversation (Some \<lparr>opt_id = Some ''web-alice'', opt_metadata = None\<rparr>)]
   \<and> length (filter is_create
        (calls (snd (getOrCreateConversation store_provider ''alice'' ''web''
                       (snd (getOrCreateConversation store_provider ''alice'' ''web'' (world_at_2000 []))))))) \<le> 1"
  using getOrCreateConversation_get_or_create
          [where P = store_provider and user = "''alice''" and platform = "''web''" and w = "world_at_2000 []"]
        store_provider_fetch_finds_created
  by (simp add: Let_def getOrCreateConversation_result getOrCreateConversation_pstate
        store_provider_def world_at_2000_def generateConversationId_def)

theorem getOrCreateConversation_get_or_create_counterexample:
  "fst (getOrCreateConversation failing_provider ''alice'' ''web'' (world_at_2000 ())) =
     Inl (Error ''Storage unavailable'')
   \<and> filter is_create
       (calls (snd (getOrCreateConversation failing_provider ''alice'' ''web''
                      (snd (getOrCreateConversation failing_provider ''alice'' ''web'' (world_at_2000 ())))))) =
     [CreateConversation (Some \<lparr>opt_id = Some ''web-alice'', opt_metadata = None\<rparr>),
      CreateConversation (Some \<lparr>opt_id = Some ''web-alice'', opt_metadata = None\<rparr>)]"
  by (simp add: getOrCreateConversation_result getOrCreateConversation_calls getOrCreateConversation_pstate
        failing_provider_def world_at_2000_def unavailable_def generateConversationId_def is_create_def Let_def)




section \<open>Maps: properties\<close>

lemma Map_get_None: "Map_get k m = None \<longleftrightarrow> \<not> Map_has k m"
  by (simp add: Map_get_def Map_has_def map_of_eq_None_iff)

lemma Map_keys_set: "set (Map_keys (Map_set k v m)) = insert k (set (Map_keys m))"
proof (cases "Map_has k m")
  case True
  have "map fst (map (\<lambda>kv. if fst kv = k then (k, v) else kv) m) = map fst m"
    by (induction m) auto
  with True show ?thesis
    by (auto simp add: Map_keys_def Map_set_def Map_has_def)
next
  case False
  then show ?thesis
    by (simp add: Map_keys_def Map_set_def)
qed

lemma Map_has_keys: "Map_has k m \<longleftrightarrow> k \<in> set (Map_keys m)"
  by (simp add: Map_has_def Map_keys_def)

lemma map_of_replace:
  "k \<in> set (map fst m) \<Longrightarrow> map_of (map (\<lambda>kv. if fst kv = k then (k, v) else kv) m) k = Some v"
  by (induction m) auto

lemma map_of_replace_other:
  "k' \<noteq> k \<Longrightarrow> map_of (map (\<lambda>kv. if fst kv = k then (k, v) else kv) m) k' = map_of m k'"
  by (induction m) auto

lemma map_of_snoc:
  "map_of (m @ [(k, v)]) k' = (case map_of m k' of Some x \<Rightarrow> Some x | None \<Rightarrow> if k' = k then Some v else None)"
  by (induction m) auto

lemma Map_get_set: "Map_get k' (Map_set k v m) = (if k' = k then Some v else Map_get k' m)"
proof (cases "Map_has k m")
  case True
  then show ?thesis
    by (simp add: Map_get_def Map_set_def Map_has_def map_of_replace map_of_replace_other)
next
  case False
  then have "map_of m k = None"
    by (simp add: Map_has_def map_of_eq_None_iff)
  with False show ?thesis
    by (simp add: Map_get_def Map_set_def map_of_snoc del: map_of_append split: option.splits)
qed

lemma Map_set_new: "\<not> Map_has k m \<Longrightarrow> Map_set k v m = m @ [(k, v)]"
  by (simp add: Map_set_def)

section \<open>Model providers: properties\<close>

lemma addCapability_length: "length (addCapability this c h) = length h"
  by (simp add: addCapability_def)

lemma addCapability_other: "r \<noteq> capabilities this \<Longrightarrow> addCapability this c h ! r = h ! r"
  by (simp add: addCapability_def)

lemma addCapability_own:
  "capabilities this < length h \<Longrightarrow>
   addCapability this c h ! capabilities this = Map_set (cap_id c) c (h ! capabilities this)"
  by (simp add: addCapability_def)

lemma fold_addCapability_length:
  "length (fold (\<lambda>c. addCapability this (f c)) cs h) = length h"
  by (induction cs arbitrary: h) (simp_all add: addCapability_length)

lemma fold_addCapability_other:
  "r \<noteq> capabilities this \<Longrightarrow> fold (\<lambda>c. addCapability this (f c)) cs h ! r = h ! r"
  by (induction cs arbitrary: h) (simp_all add: addCapability_other)

lemma fold_addCapability_keys:
  "capabilities this < length h \<Longrightarrow>
   set (Map_keys (fold (\<lambda>c. addCapability this (f c)) cs h ! capabilities this)) =
   set (Map_keys (h ! capabilities this)) \<union> set (map (\<lambda>c. cap_id (f c)) cs)"
  by (induction cs arbitrary: h)
     (auto simp add: addCapability_own addCapability_length Map_keys_set)

lemma fold_addCapability_fresh:
  "capabilities this < length h \<Longrightarrow> distinct (map (\<lambda>c. cap_id (f c)) cs) \<Longrightarrow>
   set (Map_keys (h ! capabilities this)) \<inter> set (map (\<lambda>c. cap_id (f c)) cs) = {} \<Longrightarrow>
   fold (\<lambda>c. addCapability this (f c)) cs h ! capabilities this =
   h ! capabilities this @ map (\<lambda>c. (cap_id (f c), f c)) cs"
proof (induction cs arbitrary: h)
  case Nil
  then show ?case by simp
next
  case (Cons c cs)
  have new: "\<not> Map_has (cap_id (f c)) (h ! capabilities this)"
    using Cons.prems(3) by (auto simp add: Map_has_keys)
  have own: "addCapability this (f c) h ! capabilities this = h ! capabilities this @ [(cap_id (f c), f c)]"
    using Cons.prems(1) new by (simp add: addCapability_own Map_set_new)
  have "fold (\<lambda>c. addCapability this (f c)) cs (addCapability this (f c) h) ! capabilities this =
        addCapability this (f c) h ! capabilities this @ map (\<lambda>c. (cap_id (f c), f c)) cs"
  proof (rule Cons.IH)
    show "capabilities this < length (addCapability this (f c) h)"
      using Cons.prems(1) by (simp add: addCapability_length)
    show "distinct (map (\<lambda>c. cap_id (f c)) cs)"
      using Cons.prems(2) by simp
    show "set (Map_keys (addCapability this (f c) h ! capabilities this)) \<inter> set (map (\<lambda>c. cap_id (f c)) cs) = {}"
      using Cons.prems(2,3) by (auto simp add: own Map_keys_def)
  qed
  then show ?case by (simp add: own)
qed

lemma LoggingModelDecorator_identity:
  "model_id (fst (LoggingModelDecorator model h)) = model_id model"
  "model_name (fst (LoggingModelDecorator model h)) = model_name model"
  "model_description (fst (LoggingModelDecorator model h)) = model_description model"
  "capabilities (fst (LoggingModelDecorator model h)) = length h"
  by (simp_all add: LoggingModelDecorator_def ModelProviderBase_def new_Map_def)

lemma LoggingModelDecorator_heap:
  "length (snd (LoggingModelDecorator model h)) = Suc (length h)"
  "r < length h \<Longrightarrow> snd (LoggingModelDecorator model h) ! r = h ! r"
  by (simp_all add: LoggingModelDecorator_def ModelProviderBase_def new_Map_def
        fold_addCapability_length fold_addCapability_other nth_append)

lemma decorated_id: "cap_id (decorated i c) = cap_id c"
  by (simp add: decorated_def)

lemma LoggingModelDecorator_keys:
  assumes "capabilities model < length h"
  shows "set (Map_keys (snd (LoggingModelDecorator model h) ! length h)) =
         cap_id ` set (getCapabilities model h)"
proof -
  let ?d = "fst (ModelProviderBase (model_id model) (model_name model) (model_description model)
             (checkHealth model)
             (Some (case init model of Some initialize \<Rightarrow> initialize | None \<Rightarrow> returnM ())) h)"
  have t: "capabilities ?d = length h"
    by (simp add: ModelProviderBase_def new_Map_def)
  have "set (Map_keys (fold (\<lambda>c. addCapability ?d (decorated (model_id ?d) c))
                (getCapabilities model (h @ [[]])) (h @ [[]]) ! capabilities ?d)) =
        set (Map_keys ((h @ [[]]) ! capabilities ?d)) \<union>
        set (map (\<lambda>c. cap_id (decorated (model_id ?d) c)) (getCapabilities model (h @ [[]])))"
    by (rule fold_addCapability_keys) (simp add: t)
  then show ?thesis
    using assms
    by (simp add: LoggingModelDecorator_def ModelProviderBase_def new_Map_def t decorated_id
          getCapabilities_def nth_append Map_keys_def image_image)
qed

lemma LoggingModelDecorator_table:
  assumes "capabilities model < length h" and "keyed_by_id (h ! capabilities model)"
  shows "snd (LoggingModelDecorator model h) ! length h =
         map (\<lambda>kv. (fst kv, decorated (model_id model) (snd kv))) (h ! capabilities model)"
proof -
  let ?d = "fst (ModelProviderBase (model_id model) (model_name model) (model_description model)
             (checkHealth model)
             (Some (case init model of Some initialize \<Rightarrow> initialize | None \<Rightarrow> returnM ())) h)"
  let ?cs = "getCapabilities model (h @ [[]])"
  have t: "capabilities ?d = length h" "model_id ?d = model_id model"
    by (simp_all add: ModelProviderBase_def new_Map_def)
  have cs: "?cs = map snd (h ! capabilities model)"
    using assms(1) by (simp add: getCapabilities_def Map_values_def nth_append)
  have ids: "map (\<lambda>c. cap_id (decorated (model_id ?d) c)) ?cs = map fst (h ! capabilities model)"
    using assms(2) by (simp add: cs decorated_id keyed_by_id_def list_all_iff)
  have "fold (\<lambda>c. addCapability ?d (decorated (model_id ?d) c)) ?cs (h @ [[]]) ! capabilities ?d =
        (h @ [[]]) ! capabilities ?d @ map (\<lambda>c. (cap_id (decorated (model_id ?d) c), decorated (model_id ?d) c)) ?cs"
  proof (rule fold_addCapability_fresh)
    show "capabilities ?d < length (h @ [[]])" by (simp add: t)
    show "distinct (map (\<lambda>c. cap_id (decorated (model_id ?d) c)) ?cs)"
      using assms(2) by (simp add: ids keyed_by_id_def)
    show "set (Map_keys ((h @ [[]]) ! capabilities ?d)) \<inter> set (map (\<lambda>c. cap_id (decorated (model_id ?d) c)) ?cs) = {}"
      by (simp add: t Map_keys_def)
  qed
  moreover have "map (\<lambda>c. (cap_id (decorated (model_id ?d) c), decorated (model_id ?d) c)) ?cs =
        map (\<lambda>kv. (fst kv, decorated (model_id model) (snd kv))) (h ! capabilities model)"
    using assms(2) by (simp add: cs t decorated_id keyed_by_id_def list_all_iff)
  ultimately show ?thesis
    by (simp add: LoggingModelDecorator_def ModelProviderBase_def new_Map_def t)
qed

text \<open>
  Every map that the constructor made and \<open>addCapability\<close> filled is keyed by the ids of
  its capabilities.
\<close>

lemma keyed_by_id_Map_set:
  assumes "keyed_by_id m"
  shows "keyed_by_id (Map_set (cap_id c) c m)"
proof (cases "Map_has (cap_id c) m")
  case True
  let ?m' = "map (\<lambda>kv. if fst kv = cap_id c then (cap_id c, c) else kv) m"
  have k: "map fst ?m' = map fst m"
    by (induction m) auto
  have "distinct (map fst ?m')"
    using assms unfolding k by (simp add: keyed_by_id_def)
  moreover have "list_all (\<lambda>kv. fst kv = cap_id (snd kv)) ?m'"
    using assms by (auto simp add: keyed_by_id_def list_all_iff)
  ultimately show ?thesis
    using True by (simp only: keyed_by_id_def Map_set_def if_True simp_thms)
next
  case False
  with assms show ?thesis
    by (auto simp add: keyed_by_id_def Map_set_def Map_has_def)
qed

lemma keyed_by_id_new_Map: "keyed_by_id (snd (new_Map h) ! fst (new_Map h))"
  by (simp add: new_Map_def keyed_by_id_def)

lemma keyed_by_id_addCapability:
  "capabilities this < length h \<Longrightarrow> keyed_by_id (h ! capabilities this) \<Longrightarrow>
   keyed_by_id (addCapability this c h ! capabilities this)"
  by (simp add: addCapability_own keyed_by_id_Map_set)




lemma example_heap_eval:
  "example_heap = [[(''text-generation'', echo_capability), (''image-generation'', failing_capability)]]"
  "capabilities example_model = 0"
  "model_id example_model = ''openai''"
  by (simp_all add: example_heap_def example_model_def ModelProviderBase_def new_Map_def addCapability_def
        Map_set_def Map_has_def echo_capability_def failing_capability_def)

text \<open>
  C5. \<open>executeCapability\<close> fails with the error \<open>Capability <id> not found on model
  <provider id>\<close> when the provider's table has no capability under the id; otherwise it is
  the execution of that capability on the given input and configuration, result and
  failure alike.
\<close>

theorem executeCapability_dispatch:
  "(\<not> hasCapability this capabilityId h \<longrightarrow>
      executeCapability this capabilityId input config h w =
        (Inl (Error (''Capability '' @ capabilityId @ '' not found on model '' @ model_id this)), w))
   \<and> (\<forall>capability. getCapability this capabilityId h = Some capability \<longrightarrow>
         executeCapability this capabilityId input config h w = cap_execute capability input config w)
   \<and> (hasCapability this capabilityId h \<longleftrightarrow> (\<exists>capability. getCapability this capabilityId h = Some capability))"
proof -
  have "getCapability this capabilityId h = None \<longleftrightarrow> \<not> hasCapability this capabilityId h"
    by (simp add: getCapability_def hasCapability_def Map_get_None)
  then show ?thesis
    by (auto simp add: executeCapability_def getCapability_def throwM_def)
qed

theorem executeCapability_dispatch_witness:
  "executeCapability example_model ''text-generation'' (JStr ''hi'') JUndefined example_heap quiet_world =
     (Inr (JStr ''hi''), quiet_world)
   \<and> executeCapability example_model ''image-generation'' (JStr ''hi'') JUndefined example_heap quiet_world =
     (Inl (Error ''Model overloaded''), quiet_world)
   \<and> executeCapability example_model ''speech'' (JStr ''hi'') JUndefined example_heap quiet_world =
     (Inl (Error ''Capability speech not found on model openai''), quiet_world)"
  using executeCapability_dispatch [where this = example_model and capabilityId = "''text-generation''"
          and h = example_heap and input = "JStr ''hi''" and config = JUndefined and w = quiet_world]
        executeCapability_dispatch [where this = example_model and capabilityId = "''image-generation''"
          and h = example_heap and input = "JStr ''hi''" and config = JUndefined and w = quiet_world]
        executeCapability_dispatch [where this = example_model and capabilityId = "''speech''"
          and h = example_heap and input = "JStr ''hi''" and config = JUndefined and w = quiet_world]
  by (simp add: example_heap_eval hasCapability_def getCapability_def Map_has_def Map_get_def
        echo_capability_def failing_capability_def returnM_def throwM_def)


lemma example_heap_keyed: "keyed_by_id (example_heap ! capabilities example_model)"
  by (simp add: example_heap_eval keyed_by_id_def echo_capability_def failing_capability_def)


text \<open>
  C7. The decorator has the id, name and description of the decorated model and a
  capability map of its own, which its constructor fills from the capabilities the model
  has at that moment: the decorator has a capability under an id exactly when one of the
  model's capabilities then has that id, and for a model whose map is keyed by the ids
  of its capabilities the decorator lists the decorated versions of the model's
  capabilities, one for one and in the same order. Wrapping leaves the model's own list
  as it is. Capabilities added to the decorated model afterwards leave the decorator's
  map as it was: what the decorator lists, has and executes is unchanged. A capability
  added under an id the model did not have when it was wrapped is visible on the model,
  but the decorator does not have it and executing it through the decorator fails with
  the not-found error.
\<close>

theorem LoggingModelDecorator_snapshot:
  assumes "capabilities model < length h"
  shows "let d = fst (LoggingModelDecorator model h);
             h1 = snd (LoggingModelDecorator model h);
             h2 = fold (addCapability model) added h1
         in model_id d = model_id model
          \<and> model_name d = model_name model
          \<and> model_description d = model_description model
          \<and> capabilities d \<noteq> capabilities model
          \<and> getCapabilities model h1 = getCapabilities model h
          \<and> (\<forall>cid. hasCapability d cid h1 = (cid \<in> cap_id ` set (getCapabilities model h)))
          \<and> (keyed_by_id (h ! capabilities model) \<longrightarrow>
                getCapabilities d h1 = map (decorated (model_id model)) (getCapabilities model h))
          \<and> h2 ! capabilities d = h1 ! capabilities d
          \<and> getCapabilities d h2 = getCapabilities d h1
          \<and> (\<forall>cid. hasCapability d cid h2 = hasCapability d cid h1
                 \<and> getCapability d cid h2 = getCapability d cid h1
                 \<and> (\<forall>input config. executeCapability d cid input config h2 =
                                    executeCapability d cid input config h1))
          \<and> (\<forall>c \<in> set added.
                hasCapability model (cap_id c) h2
              \<and> (cap_id c \<notin> cap_id ` set (getCapabilities model h) \<longrightarrow>
                   \<not> hasCapability d (cap_id c) h2
                 \<and> getCapability d (cap_id c) h2 = None
                 \<and> (\<forall>input config w.
                       executeCapability d (cap_id c) input config h2 w =
                         (Inl (Error (''Capability '' @ cap_id c @ '' not found on model '' @ model_id model)), w))))"
proof -
  let ?d = "fst (LoggingModelDecorator model h)"
  let ?h1 = "snd (LoggingModelDecorator model h)"
  let ?h2 = "fold (addCapability model) added ?h1"
  note idn = LoggingModelDecorator_identity [of model h]
  have ne: "capabilities ?d \<noteq> capabilities model"
    using assms by (simp add: idn)
  have same: "?h2 ! capabilities ?d = ?h1 ! capabilities ?d"
    using fold_addCapability_other [where f = "\<lambda>c. c", OF ne] by simp
  have valid: "capabilities model < length ?h1"
    using assms by (simp add: LoggingModelDecorator_heap)
  have keys: "set (Map_keys (?h2 ! capabilities model)) =
              set (Map_keys (?h1 ! capabilities model)) \<union> set (map cap_id added)"
    using fold_addCapability_keys [where f = "\<lambda>c. c", OF valid] by simp
  have visible: "\<forall>c \<in> set added. hasCapability model (cap_id c) ?h2"
    by (simp add: hasCapability_def Map_has_keys keys)
  have dkeys: "set (Map_keys (?h1 ! capabilities ?d)) = cap_id ` set (getCapabilities model h)"
    using LoggingModelDecorator_keys [OF assms] by (simp add: idn)
  have hidden: "\<forall>c \<in> set added. cap_id c \<notin> cap_id ` set (getCapabilities model h) \<longrightarrow>
                 \<not> hasCapability ?d (cap_id c) ?h2
                 \<and> getCapability ?d (cap_id c) ?h2 = None
                 \<and> (\<forall>input config w.
                       executeCapability ?d (cap_id c) input config ?h2 w =
                         (Inl (Error (''Capability '' @ cap_id c @ '' not found on model '' @ model_id model)), w))"
  proof (intro ballI impI)
    fix c assume "c \<in> set added" and new: "cap_id c \<notin> cap_id ` set (getCapabilities model h)"
    have "\<not> Map_has (cap_id c) (?h2 ! capabilities ?d)"
      using new by (simp add: same Map_has_keys dkeys)
    then show "\<not> hasCapability ?d (cap_id c) ?h2
                 \<and> getCapability ?d (cap_id c) ?h2 = None
                 \<and> (\<forall>input config w.
                       executeCapability ?d (cap_id c) input config ?h2 w =
                         (Inl (Error (''Capability '' @ cap_id c @ '' not found on model '' @ model_id model)), w))"
      by (simp add: hasCapability_def getCapability_def executeCapability_def Map_get_None [symmetric]
            throwM_def LoggingModelDecorator_identity(1))
  qed
  have listed: "getCapabilities ?d ?h2 = getCapabilities ?d ?h1"
    by (simp add: getCapabilities_def same)
  have own: "getCapabilities model ?h1 = getCapabilities model h"
    using assms by (simp add: getCapabilities_def LoggingModelDecorator_heap)
  have copied: "\<forall>cid. hasCapability ?d cid ?h1 = (cid \<in> cap_id ` set (getCapabilities model h))"
    by (simp add: hasCapability_def Map_has_keys dkeys)
  have wrapped: "keyed_by_id (h ! capabilities model) \<longrightarrow>
                getCapabilities ?d ?h1 = map (decorated (model_id model)) (getCapabilities model h)"
  proof
    assume k: "keyed_by_id (h ! capabilities model)"
    show "getCapabilities ?d ?h1 = map (decorated (model_id model)) (getCapabilities model h)"
      unfolding getCapabilities_def idn(4) LoggingModelDecorator_table [OF assms k]
      by (simp add: Map_values_def)
  qed
  have frame: "\<forall>cid. hasCapability ?d cid ?h2 = hasCapability ?d cid ?h1
                 \<and> getCapability ?d cid ?h2 = getCapability ?d cid ?h1
                 \<and> (\<forall>input config. executeCapability ?d cid input config ?h2 =
                                    executeCapability ?d cid input config ?h1)"
    by (simp add: hasCapability_def getCapability_def executeCapability_def same)
  have late: "\<forall>c \<in> set added.
                hasCapability model (cap_id c) ?h2
              \<and> (cap_id c \<notin> cap_id ` set (getCapabilities model h) \<longrightarrow>
                   \<not> hasCapability ?d (cap_id c) ?h2
                 \<and> getCapability ?d (cap_id c) ?h2 = None
                 \<and> (\<forall>input config w.
                       executeCapability ?d (cap_id c) input config ?h2 w =
                         (Inl (Error (''Capability '' @ cap_id c @ '' not found on model '' @ model_id model)), w)))"
    using visible hidden by blast
  show ?thesis
    unfolding Let_def
    by (intro conjI idn(1) idn(2) idn(3) ne own copied wrapped same listed frame late)
qed

theorem LoggingModelDecorator_snapshot_witness:
  "getCapabilities (fst (LoggingModelDecorator example_model example_heap))
        (addCapability example_model (echo_capability\<lparr>cap_id := ''speech''\<rparr>)
           (snd (LoggingModelDecorator example_model example_heap))) =
     [decorated ''openai'' echo_capability, decorated ''openai'' failing_capability]
   \<and> hasCapability (fst (LoggingModelDecorator example_model example_heap)) ''text-generation''
        (snd (LoggingModelDecorator example_model example_heap))
   \<and> hasCapability example_model ''speech''
        (addCapability example_model (echo_capability\<lparr>cap_id := ''speech''\<rparr>)
           (snd (LoggingModelDecorator example_model example_heap)))
   \<and> executeCapability (fst (LoggingModelDecorator example_model example_heap)) ''speech''
        (JStr ''hi'') JUndefined
        (addCapability example_model (echo_capability\<lparr>cap_id := ''speech''\<rparr>)
           (snd (LoggingModelDecorator example_model example_heap))) quiet_world =
     (Inl (Error ''Capability speech not found on model openai''), quiet_world)"
proof -
  let ?c = "echo_capability\<lparr>cap_id := ''speech''\<rparr>"
  let ?d = "fst (LoggingModelDecorator example_model example_heap)"
  let ?h1 = "snd (LoggingModelDecorator example_model example_heap)"
  have v: "capabilities example_model < length example_heap"
    by (simp add: example_heap_eval)
  have new: "cap_id ?c \<notin> cap_id ` set (getCapabilities example_model example_heap)"
    by (simp add: getCapabilities_def example_heap_eval Map_values_def echo_capability_def
          failing_capability_def)
  have old: "''text-generation'' \<in> cap_id ` set (getCapabilities example_model example_heap)"
    by (simp add: getCapabilities_def example_heap_eval Map_values_def echo_capability_def)
  have listing: "map (decorated (model_id example_model)) (getCapabilities example_model example_heap) =
                 [decorated ''openai'' echo_capability, decorated ''openai'' failing_capability]"
    by (simp add: getCapabilities_def example_heap_eval Map_values_def)
  note s = LoggingModelDecorator_snapshot [OF v, where added = "[?c]", unfolded Let_def]
  note copied = s [THEN conjunct2, THEN conjunct2, THEN conjunct2, THEN conjunct2, THEN conjunct2,
                   THEN conjunct1, THEN spec, of "''text-generation''"]
  note wrapped = mp [OF s [THEN conjunct2, THEN conjunct2, THEN conjunct2, THEN conjunct2, THEN conjunct2,
                           THEN conjunct2, THEN conjunct1] example_heap_keyed]
  note listed = s [THEN conjunct2, THEN conjunct2, THEN conjunct2, THEN conjunct2, THEN conjunct2,
                   THEN conjunct2, THEN conjunct2, THEN conjunct2, THEN conjunct1]
  note late = s [THEN conjunct2, THEN conjunct2, THEN conjunct2, THEN conjunct2, THEN conjunct2,
                 THEN conjunct2, THEN conjunct2, THEN conjunct2, THEN conjunct2, THEN conjunct2]
  have mem: "?c \<in> set [?c]"
    by simp
  note late_c = bspec [OF late mem]
  note visible = late_c [THEN conjunct1]
  note hidden = mp [OF late_c [THEN conjunct2] new]
  note fails = hidden [THEN conjunct2, THEN conjunct2, THEN spec, THEN spec, THEN spec,
                       of "JStr ''hi''" JUndefined quiet_world]
  have a: "getCapabilities ?d (addCapability example_model ?c ?h1) =
           [decorated ''openai'' echo_capability, decorated ''openai'' failing_capability]"
    using listed wrapped listing by simp
  have b: "hasCapability ?d ''text-generation'' ?h1"
    using copied old by simp
  show ?thesis
    using a b visible fails by (simp add: example_heap_eval(3))
qed

section \<open>The plugin registry: properties\<close>

lemma validatePluginId_ok:
  "validatePluginId (''plugin-'' @ rest) w = (Inr (), w)"
  by (simp add: validatePluginId_def startsWith_def returnM_def)

lemma register_fresh:
  assumes "plugin_id plugin = ''plugin-'' @ rest" and "\<not> Map_has (plugin_id plugin) (plugins w)"
  shows "register (Some plugin) w = (Inr (), w\<lparr>plugins := plugins w @ [(plugin_id plugin, plugin)]\<rparr>)"
proof -
  have v: "validatePluginId (plugin_id plugin) w = (Inr (), w)"
    by (simp only: assms(1) validatePluginId_ok)
  show ?thesis
    using assms(2) by (simp add: register_def bindM_def v Map_set_new)
qed

lemma register_collision:
  assumes "plugin_id plugin = ''plugin-'' @ rest" and "Map_has (plugin_id plugin) (plugins w)"
  shows "register (Some plugin) w =
     (Inl (Error (''Plugin ID collision: '' @ plugin_id plugin @ '' is already registered.''
                  @ [CHR 0x0A] @ ''Currently registered plugins: '' @ join '', '' (Map_keys (plugins w)))),
      w\<lparr>events := events w @
           [\<lparr>ev_type = ''registry.plugin.id.collision'',
             ev_message = ''Plugin ID collision'',
             ev_logLevel = ''error'',
             ev_metadata = JObj [(''id'', JStr (plugin_id plugin)),
                                 (''existingPlugins'', JArr (map JStr (Map_keys (plugins w))))]\<rparr>]\<rparr>)"
proof -
  have v: "validatePluginId (plugin_id plugin) w = (Inr (), w)"
    by (simp only: assms(1) validatePluginId_ok)
  show ?thesis
    using assms(2) by (simp add: register_def bindM_def v publishEvent_def throwM_def Let_def)
qed

lemma getPlugin_found:
  "Map_get id' (plugins w) = Some plugin \<Longrightarrow> getPlugin id' w = (Inr (Some plugin), w)"
  by (simp add: getPlugin_def)

text \<open>
  C8. Let the id of a plugin begin with \<open>plugin-\<close>. Registering it in a registry that
  does not have the id succeeds, and \<open>getPlugin\<close> with the id then returns that plugin.
  Registering any plugin with the same id afterwards throws the collision error, whose
  message lists the ids registered at that moment; the registry's entries stay as they
  were, and \<open>getPlugin\<close> still returns the plugin registered first. In general, a
  registration under an id the registry has throws that error and changes no entry.
\<close>

theorem register_then_getPlugin:
  assumes "plugin_id plugin = ''plugin-'' @ rest"
    and "plugin_id other = plugin_id plugin"
  shows "let collision = (\<lambda>w. Error (''Plugin ID collision: '' @ plugin_id plugin @ '' is already registered.''
                                    @ [CHR 0x0A] @ ''Currently registered plugins: ''
                                    @ join '', '' (Map_keys (plugins w))));
             w1 = snd (register (Some plugin) w);
             w2 = snd (register (Some other) w1)
         in (\<not> Map_has (plugin_id plugin) (plugins w) \<longrightarrow>
               fst (register (Some plugin) w) = Inr ()
             \<and> Map_keys (plugins w1) = Map_keys (plugins w) @ [plugin_id plugin]
             \<and> getPlugin (plugin_id plugin) w1 = (Inr (Some plugin), w1)
             \<and> fst (register (Some other) w1) = Inl (collision w1)
             \<and> plugins w2 = plugins w1
             \<and> getPlugin (plugin_id plugin) w2 = (Inr (Some plugin), w2))
          \<and> (Map_has (plugin_id plugin) (plugins w) \<longrightarrow>
               fst (register (Some other) w) = Inl (collision w)
             \<and> plugins (snd (register (Some other) w)) = plugins w)"
proof -
  let ?w1 = "w\<lparr>plugins := plugins w @ [(plugin_id plugin, plugin)]\<rparr>"
  have o: "plugin_id other = ''plugin-'' @ rest"
    using assms by simp
  have known: "Map_has (plugin_id plugin) (plugins w) \<longrightarrow>
               fst (register (Some other) w) =
                 Inl (Error (''Plugin ID collision: '' @ plugin_id plugin @ '' is already registered.''
                             @ [CHR 0x0A] @ ''Currently registered plugins: ''
                             @ join '', '' (Map_keys (plugins w))))
             \<and> plugins (snd (register (Some other) w)) = plugins w"
    using register_collision [OF o, of w] by (simp add: assms(2))
  have fresh: "\<not> Map_has (plugin_id plugin) (plugins w) \<longrightarrow>
               fst (register (Some plugin) w) = Inr ()
             \<and> Map_keys (plugins (snd (register (Some plugin) w))) = Map_keys (plugins w) @ [plugin_id plugin]
             \<and> getPlugin (plugin_id plugin) (snd (register (Some plugin) w)) =
                 (Inr (Some plugin), snd (register (Some plugin) w))
             \<and> fst (register (Some other) (snd (register (Some plugin) w))) =
                 Inl (Error (''Plugin ID collision: '' @ plugin_id plugin @ '' is already registered.''
                             @ [CHR 0x0A] @ ''Currently registered plugins: ''
                             @ join '', '' (Map_keys (plugins (snd (register (Some plugin) w))))))
             \<and> plugins (snd (register (Some other) (snd (register (Some plugin) w)))) =
                 plugins (snd (register (Some plugin) w))
             \<and> getPlugin (plugin_id plugin) (snd (register (Some other) (snd (register (Some plugin) w)))) =
                 (Inr (Some plugin), snd (register (Some other) (snd (register (Some plugin) w))))"
  proof
    assume new: "\<not> Map_has (plugin_id plugin) (plugins w)"
    have r: "register (Some plugin) w = (Inr (), ?w1)"
      by (rule register_fresh [OF assms(1) new])
    from new have "map_of (plugins w) (plugin_id plugin) = None"
      by (simp add: Map_has_def map_of_eq_None_iff)
    then have g: "Map_get (plugin_id plugin) (plugins ?w1) = Some plugin"
      by (simp add: Map_get_def map_of_snoc del: map_of_append)
    have h: "Map_has (plugin_id other) (plugins ?w1)"
      by (simp add: Map_has_def assms(2))
    note c = register_collision [OF o h]
    have g2: "Map_get (plugin_id plugin) (plugins (snd (register (Some other) ?w1))) = Some plugin"
      using g by (simp add: c)
    show "fst (register (Some plugin) w) = Inr ()
             \<and> Map_keys (plugins (snd (register (Some plugin) w))) = Map_keys (plugins w) @ [plugin_id plugin]
             \<and> getPlugin (plugin_id plugin) (snd (register (Some plugin) w)) =
                 (Inr (Some plugin), snd (register (Some plugin) w))
             \<and> fst (register (Some other) (snd (register (Some plugin) w))) =
                 Inl (Error (''Plugin ID collision: '' @ plugin_id plugin @ '' is already registered.''
                             @ [CHR 0x0A] @ ''Currently registered plugins: ''
                             @ join '', '' (Map_keys (plugins (snd (register (Some plugin) w))))))
             \<and> plugins (snd (register (Some other) (snd (register (Some plugin) w)))) =
                 plugins (snd (register (Some plugin) w))
             \<and> getPlugin (plugin_id plugin) (snd (register (Some other) (snd (register (Some plugin) w)))) =
                 (Inr (Some plugin), snd (register (Some other) (snd (register (Some plugin) w))))"
      unfolding r snd_conv fst_conv
      using getPlugin_found [OF g] getPlugin_found [OF g2]
      by (simp add: c Map_keys_def assms(2))
  qed
  show ?thesis
    unfolding Let_def by (intro conjI fresh known)
qed

theorem register_then_getPlugin_witness:
  "fst (register (Some character_plugin) empty_registry) = Inr ()
   \<and> fst (getPlugin ''plugin-character'' (snd (register (Some character_plugin) empty_registry))) =
       Inr (Some character_plugin)
   \<and> fst (register (Some (character_plugin\<lparr>plugin_name := ''Impostor''\<rparr>))
            (snd (register (Some character_plugin) empty_registry))) =
       Inl (Error (''Plugin ID collision: plugin-character is already registered.'' @ [CHR 0x0A]
                   @ ''Currently registered plugins: plugin-character''))
   \<and> fst (getPlugin ''plugin-character''
            (snd (register (Some (character_plugin\<lparr>plugin_name := ''Impostor''\<rparr>))
                    (snd (register (Some character_plugin) empty_registry))))) =
       Inr (Some character_plugin)"
proof -
  have i: "plugin_id character_plugin = ''plugin-'' @ ''character''"
    by (simp add: character_plugin_def)
  have j: "plugin_id (character_plugin\<lparr>plugin_name := ''Impostor''\<rparr>) = plugin_id character_plugin"
    by simp
  have n: "\<not> Map_has (plugin_id character_plugin) (plugins empty_registry)"
    by (simp add: Map_has_def empty_registry_def)
  note t = register_then_getPlugin [OF i j, where w = empty_registry, unfolded Let_def]
  note f = mp [OF t [THEN conjunct1] n]
  have k: "Map_keys (plugins (snd (register (Some character_plugin) empty_registry))) = [''plugin-character'']"
    using f [THEN conjunct2, THEN conjunct1] by (simp add: empty_registry_def Map_keys_def character_plugin_def)
  show ?thesis
    using f by (simp add: k)
qed

end
